theory Spec2Isabelle
  imports Complex_Main
begin

section \<open>Numbers of the source language\<close>

text \<open>
  Every \<^verbatim>\<open>number\<close> of the TypeScript source is an IEEE double. The embedding takes the
  numbers that enter the engine (prices, timestamps, thresholds, intervals) to be finite
  doubles and represents them by the real numbers they are. Overflow, subnormal numbers
  and the negative zero are left out throughout. Two things are kept.

  The first is the one place where a finite computation of the source leaves the finite
  numbers: a division by zero, which gives \<^verbatim>\<open>Infinity\<close>, \<^verbatim>\<open>-Infinity\<close> or
  \<^verbatim>\<open>NaN\<close>, and the arithmetic and the comparisons that the source then applies to
  such a value.

  The second is the rounding of each arithmetic operation to the nearest double, ties
  to even, in the mispricing rule. There the rounding decides on ordinary inputs: with
  the prices 100, 100, 107 the deviation of 107 from the median is 7 percent as a real
  number, and 7.000000000000001 as the source computes it, which exceeds a warning
  threshold of 7. The stale-oracle, flash-loan and divergence rules are computed in
  exact real arithmetic.
\<close>

datatype jsnum = Fin real | PInf | NInf | NaN

text \<open>\<^verbatim>\<open>a / b\<close> for finite \<open>a\<close> and \<open>b\<close>.\<close>

definition js_div :: "real \<Rightarrow> real \<Rightarrow> jsnum" where
  "js_div a b =
     (if b \<noteq> 0 then Fin (a / b)
      else if 0 < a then PInf
      else if a < 0 then NInf
      else NaN)"

text \<open>\<^verbatim>\<open>x * c\<close> for a finite constant \<open>c\<close>.\<close>

definition js_times :: "jsnum \<Rightarrow> real \<Rightarrow> jsnum" where
  "js_times x c =
     (case x of
        Fin a \<Rightarrow> Fin (a * c)
      | PInf \<Rightarrow> (if 0 < c then PInf else if c < 0 then NInf else NaN)
      | NInf \<Rightarrow> (if 0 < c then NInf else if c < 0 then PInf else NaN)
      | NaN \<Rightarrow> NaN)"

text \<open>\<^verbatim>\<open>x / c\<close> for a finite constant \<open>c\<close>.\<close>

definition js_over :: "jsnum \<Rightarrow> real \<Rightarrow> jsnum" where
  "js_over x c =
     (case x of
        Fin a \<Rightarrow> js_div a c
      | PInf \<Rightarrow> (if 0 \<le> c then PInf else NInf)
      | NInf \<Rightarrow> (if 0 \<le> c then NInf else PInf)
      | NaN \<Rightarrow> NaN)"

text \<open>\<^verbatim>\<open>Math.abs(x)\<close>.\<close>

definition js_abs :: "jsnum \<Rightarrow> jsnum" where
  "js_abs x = (case x of Fin a \<Rightarrow> Fin \<bar>a\<bar> | PInf \<Rightarrow> PInf | NInf \<Rightarrow> PInf | NaN \<Rightarrow> NaN)"

text \<open>\<^verbatim>\<open>x > c\<close> for a finite \<open>c\<close>: every comparison with \<^verbatim>\<open>NaN\<close> is false.\<close>

definition js_gt :: "jsnum \<Rightarrow> real \<Rightarrow> bool" where
  "js_gt x c = (case x of Fin a \<Rightarrow> c < a | PInf \<Rightarrow> True | NInf \<Rightarrow> False | NaN \<Rightarrow> False)"

subsection \<open>Rounding to the nearest double\<close>

text \<open>
  The binary exponent of a positive number: the \<open>e\<close> with \<open>2^e \<le> x < 2^(e + 1)\<close>.
\<close>

function expo :: "real \<Rightarrow> int" where
  "expo x = (if x \<le> 0 then 0
             else if 2 \<le> x then expo (x / 2) + 1
             else if x < 1 then expo (x * 2) - 1
             else 0)"
  by pat_completeness auto
termination
proof (relation "measure (\<lambda>x. nat \<bar>\<lfloor>log 2 x\<rfloor>\<bar>)")
  show "wf (measure (\<lambda>x. nat \<bar>\<lfloor>log 2 x\<rfloor>\<bar>))" by simp
next
  fix x :: real
  assume a: "\<not> x \<le> 0" "2 \<le> x"
  then have "log 2 (x / 2) = log 2 x - 1" by (simp add: log_divide)
  moreover from a have "1 \<le> log 2 x" by (simp add: le_log_iff)
  then have "1 \<le> \<lfloor>log 2 x\<rfloor>" by linarith
  ultimately show "(x / 2, x) \<in> measure (\<lambda>x. nat \<bar>\<lfloor>log 2 x\<rfloor>\<bar>)"
    by simp
next
  fix x :: real
  assume a: "\<not> x \<le> 0" "\<not> 2 \<le> x" "x < 1"
  then have "log 2 (x * 2) = log 2 x + 1" by (simp add: log_mult)
  moreover from a have "log 2 x < 0" by simp
  then have "\<lfloor>log 2 x\<rfloor> \<le> -1" by linarith
  ultimately show "(x * 2, x) \<in> measure (\<lambda>x. nat \<bar>\<lfloor>log 2 x\<rfloor>\<bar>)"
    by simp
qed

declare expo.simps [simp del]

text \<open>Rounding to the nearest integer, a tie to the even one.\<close>

definition rne :: "real \<Rightarrow> int" where
  "rne y = (let f = \<lfloor>y\<rfloor>
            in if y - of_int f < 1 / 2 then f
               else if 1 / 2 < y - of_int f then f + 1
               else if even f then f else f + 1)"

text \<open>
  The double nearest to \<open>x\<close>: doubles have 53 significant bits, so between \<open>2^e\<close> and
  \<open>2^(e + 1)\<close> they are the multiples of \<open>2^(e - 52)\<close>.
\<close>

definition fl :: "real \<Rightarrow> real" where
  "fl x = (if x = 0 then 0
           else of_int (rne (x / 2 powi (expo \<bar>x\<bar> - 52))) * 2 powi (expo \<bar>x\<bar> - 52))"

text \<open>The rounding of a result of the source language that may not be finite.\<close>

definition js_round :: "jsnum \<Rightarrow> jsnum" where
  "js_round x = (case x of Fin a \<Rightarrow> Fin (fl a) | PInf \<Rightarrow> PInf | NInf \<Rightarrow> NInf | NaN \<Rightarrow> NaN)"

section \<open>Data model (shared/schema.ts)\<close>

text \<open>
  \<^verbatim>\<open>AlertSeverity\<close> is the numbers 0 (INFO), 1 (WARNING), 2 (CRITICAL), 3 (EMERGENCY);
  the engine writes the numerals, and so does the model. \<^verbatim>\<open>IncidentType\<close> is four
  string constants.
\<close>

datatype IncidentType = Mispricing | Stale_oracle | Flash_loan | Divergence

fun type_string :: "IncidentType \<Rightarrow> string" where
  "type_string Mispricing = ''mispricing''"
| "type_string Stale_oracle = ''stale_oracle''"
| "type_string Flash_loan = ''flash_loan''"
| "type_string Divergence = ''divergence''"

text \<open>The fields of \<^verbatim>\<open>OraclePrice\<close> that are not optional.\<close>

record OraclePrice =
  chain :: string
  asset :: string
  symbol :: string
  price :: real
  source :: string
  timestamp :: real
  confidence :: real

record Thresholds =
  warning :: real
  critical :: real
  emergency :: real

record AssetConfig =
  config_asset :: string
  expectedUpdateInterval :: real
  enabled :: bool
  thresholds :: Thresholds

text \<open>
  \<^verbatim>\<open>DetectionResult.details\<close> has type \<^verbatim>\<open>any\<close>; the engine builds five shapes of it,
  one per rule and the empty object. The constructor arguments are, in the order of the
  source's object literals:
  \<^item> stale: \<^verbatim>\<open>staleDuration\<close>, \<^verbatim>\<open>lastUpdateTime\<close>, \<^verbatim>\<open>expectedUpdateInterval\<close>;
  \<^item> flash loan: \<^verbatim>\<open>priceChangeBps\<close>, \<^verbatim>\<open>timeWindowSeconds\<close>, \<^verbatim>\<open>minPrice\<close>,
    \<^verbatim>\<open>maxPrice\<close>, \<^verbatim>\<open>volumeMultiplier\<close>;
  \<^item> divergence: \<^verbatim>\<open>standardDeviationBps\<close>, \<^verbatim>\<open>sourceCount\<close>, \<^verbatim>\<open>priceRange\<close>;
  \<^item> mispricing: \<^verbatim>\<open>onchainPrice\<close>, \<^verbatim>\<open>referencePrice\<close>, \<^verbatim>\<open>deviationBps\<close>,
    \<^verbatim>\<open>chain\<close>, \<^verbatim>\<open>zScore\<close>.
\<close>

datatype Details =
    NoDetails
  | StaleDetails real real real
  | FlashLoanDetails jsnum real real real real
  | DivergenceDetails jsnum nat "real \<times> real"
  | MispricingDetails real real jsnum string real

record DetectionResult =
  detected :: bool
  type :: "IncidentType option"
  severity :: nat
  details :: Details

text \<open>The object \<^verbatim>\<open>{ detected: false, type: null, severity: 0, details: {} }\<close>.\<close>

definition not_detected :: DetectionResult where
  "not_detected = \<lparr>detected = False, type = None, severity = 0, details = NoDetails\<rparr>"

section \<open>Detection engine (class DetectionEngine)\<close>

subsection \<open>Stale oracle\<close>

text \<open>
  \<^verbatim>\<open>detectStaleOracle(price, config)\<close>. The source reads the clock with
  \<^verbatim>\<open>Date.now()\<close>; the model takes the reading as the argument \<open>now\<close> (milliseconds).
\<close>

definition detectStaleOracle :: "real \<Rightarrow> OraclePrice \<Rightarrow> AssetConfig \<Rightarrow> DetectionResult" where
  "detectStaleOracle now p config =
     (let timeSinceUpdate = now - timestamp p;
          expectedInterval = expectedUpdateInterval config * 1000;
          staleDuration = timeSinceUpdate - expectedInterval
      in if staleDuration > expectedInterval * 2
         then \<lparr>detected = True, type = Some Stale_oracle,
               severity = (if staleDuration > expectedInterval * 5 then 2 else 1),
               details = StaleDetails (staleDuration / 1000) (timestamp p)
                           (expectedUpdateInterval config)\<rparr>
         else not_detected)"

subsection \<open>Flash loan\<close>

definition HISTORY_SIZE :: nat where
  "HISTORY_SIZE = 100"

definition FLASH_LOAN_WINDOW_MS :: real where
  "FLASH_LOAN_WINDOW_MS = 15000"

text \<open>
  \<^verbatim>\<open>Math.min(...xs)\<close> and \<^verbatim>\<open>Math.max(...xs)\<close> on a list of finite numbers that is not
  empty. The engine calls them behind a length check only (at least 2 prices in the
  flash-loan rule, at least 1 in the statistical analysis).
\<close>

definition math_min :: "real list \<Rightarrow> real" where
  "math_min xs = fold min (tl xs) (hd xs)"

definition math_max :: "real list \<Rightarrow> real" where
  "math_max xs = fold max (tl xs) (hd xs)"

text \<open>
  \<^verbatim>\<open>priceHistory: Map<string, OraclePrice[]>\<close>, the only stored state of the engine.
  The key is the template string \<^verbatim>\<open>`${asset}-${currentPrice.chain}`\<close>.
\<close>

type_synonym PriceHistory = "string \<Rightarrow> OraclePrice list option"

definition history_key :: "string \<Rightarrow> OraclePrice \<Rightarrow> string" where
  "history_key asset_name currentPrice = asset_name @ ''-'' @ chain currentPrice"

text \<open>\<^verbatim>\<open>this.priceHistory.get(key) || []\<close>: an array is never falsy.\<close>

definition stored_history :: "PriceHistory \<Rightarrow> string \<Rightarrow> OraclePrice list" where
  "stored_history priceHistory key = (case priceHistory key of None \<Rightarrow> [] | Some h \<Rightarrow> h)"

text \<open>\<^verbatim>\<open>history.push(currentPrice); if (history.length > HISTORY_SIZE) history.shift()\<close>.\<close>

definition push_history :: "OraclePrice \<Rightarrow> OraclePrice list \<Rightarrow> OraclePrice list" where
  "push_history currentPrice history =
     (let pushed = history @ [currentPrice]
      in if length pushed > HISTORY_SIZE then tl pushed else pushed)"

text \<open>The filter that selects the window of the current observation.\<close>

definition recentPrices :: "OraclePrice \<Rightarrow> OraclePrice list \<Rightarrow> OraclePrice list" where
  "recentPrices currentPrice history =
     filter (\<lambda>p. timestamp currentPrice - timestamp p < FLASH_LOAN_WINDOW_MS) history"

text \<open>
  \<^verbatim>\<open>detectFlashLoan(currentPrice, asset)\<close>: the result and the engine's history after
  the call.
\<close>

definition detectFlashLoan ::
  "OraclePrice \<Rightarrow> string \<Rightarrow> PriceHistory \<Rightarrow> DetectionResult \<times> PriceHistory" where
  "detectFlashLoan currentPrice asset_name priceHistory =
     (let key = history_key asset_name currentPrice;
          history = push_history currentPrice (stored_history priceHistory key);
          priceHistory' = priceHistory(key \<mapsto> history);
          recent = recentPrices currentPrice history
      in if length recent < 2 then (not_detected, priceHistory')
         else
           let prices = map price recent;
               minPrice = math_min prices;
               maxPrice = math_max prices;
               priceChangeBps = js_times (js_div (maxPrice - minPrice) minPrice) 10000
           in if js_gt priceChangeBps 2000
              then (\<lparr>detected = True, type = Some Flash_loan, severity = 3,
                     details = FlashLoanDetails priceChangeBps (FLASH_LOAN_WINDOW_MS / 1000)
                                 minPrice maxPrice 0\<rparr>,
                    priceHistory')
              else (not_detected, priceHistory'))"

subsection \<open>Statistical analysis\<close>

text \<open>
  The local constants of \<^verbatim>\<open>performStatisticalAnalysis\<close>, as functions of
  \<^verbatim>\<open>values = prices.map(p => p.price)\<close>. \<^verbatim>\<open>[...values].sort((a, b) => a - b)\<close> is the
  ascending sort; \<^verbatim>\<open>reduce\<close> is a left fold. The constants that the mispricing
  check uses (the deviations from the median and the MAD) round each operation; the
  median itself is an element of the list.
\<close>

definition median :: "real list \<Rightarrow> real" where
  "median values = sort values ! (length values div 2)"

definition mean :: "real list \<Rightarrow> real" where
  "mean values = foldl (\<lambda>a b. a + b) 0 values / real (length values)"

definition deviationsFromMedian :: "real list \<Rightarrow> real list" where
  "deviationsFromMedian values = map (\<lambda>v. \<bar>fl (v - median values)\<bar>) values"

definition mad :: "real list \<Rightarrow> real" where
  "mad values =
     sort (deviationsFromMedian values) ! (length (deviationsFromMedian values) div 2)"

definition variance :: "real list \<Rightarrow> real" where
  "variance values =
     foldl (\<lambda>acc val. acc + (val - mean values) ^ 2) 0 values / real (length values)"

definition stdDev :: "real list \<Rightarrow> real" where
  "stdDev values = sqrt (variance values)"

definition stdDevBps :: "real list \<Rightarrow> jsnum" where
  "stdDevBps values = js_times (js_div (stdDev values) (mean values)) 10000"

text \<open>The divergence check: no result or one.\<close>

definition divergence_check :: "OraclePrice list \<Rightarrow> DetectionResult list" where
  "divergence_check prices =
     (let values = map price prices
      in if js_gt (stdDevBps values) 1000
         then [\<lparr>detected = True, type = Some Divergence,
                 severity = (if js_gt (stdDevBps values) 2000 then 3
                             else if js_gt (stdDevBps values) 1500 then 2 else 1),
                 details = DivergenceDetails (stdDevBps values) (length prices)
                             (math_min values, math_max values)\<rparr>]
         else [])"

text \<open>The local constants of the callback of \<^verbatim>\<open>prices.forEach\<close>.\<close>

definition zScoreThreshold :: real where
  "zScoreThreshold = 2.5"

definition zScore :: "real list \<Rightarrow> OraclePrice \<Rightarrow> real" where
  "zScore values p =
     (if mad values > 0 then fl (\<bar>fl (price p - median values)\<bar> / mad values) else 0)"

definition deviationBps :: "real list \<Rightarrow> OraclePrice \<Rightarrow> jsnum" where
  "deviationBps values p =
     js_round (js_times
       (js_round (js_div (fl (price p - median values)) (median values))) 10000)"

definition absDeviationPercent :: "real list \<Rightarrow> OraclePrice \<Rightarrow> jsnum" where
  "absDeviationPercent values p = js_round (js_over (js_abs (deviationBps values p)) 100)"

text \<open>The callback itself: the results it pushes for one price (none or one).\<close>

definition mispricing_check ::
  "real list \<Rightarrow> AssetConfig \<Rightarrow> OraclePrice \<Rightarrow> DetectionResult list" where
  "mispricing_check values config p =
     (if js_gt (absDeviationPercent values p) (warning (thresholds config))
         \<or> zScore values p > zScoreThreshold
      then [\<lparr>detected = True, type = Some Mispricing,
              severity =
                (if js_gt (absDeviationPercent values p) (emergency (thresholds config)) then 3
                 else if js_gt (absDeviationPercent values p) (critical (thresholds config))
                 then 2 else 1),
              details = MispricingDetails (price p) (median values)
                          (js_abs (deviationBps values p)) (chain p) (zScore values p)\<rparr>]
      else [])"

text \<open>
  \<^verbatim>\<open>performStatisticalAnalysis(prices, config)\<close>. The method is private and its one
  call is behind \<^verbatim>\<open>prices.length >= 3\<close>. On an empty array the source would read
  \<^verbatim>\<open>sorted[0]\<close> (\<^verbatim>\<open>undefined\<close>) and divide 0 by 0, every comparison would be false
  and the loop would not run: it would return no result, which is the first branch here.
\<close>

definition performStatisticalAnalysis ::
  "OraclePrice list \<Rightarrow> AssetConfig \<Rightarrow> DetectionResult list" where
  "performStatisticalAnalysis prices config =
     (if prices = [] then []
      else divergence_check prices
           @ concat (map (mispricing_check (map price prices) config) prices))"

subsection \<open>The detection pass for one asset\<close>

text \<open>The second loop of \<^verbatim>\<open>analyzePrices\<close>, which threads the history through the calls.\<close>

fun flash_loop ::
  "string \<Rightarrow> OraclePrice list \<Rightarrow> PriceHistory \<Rightarrow> DetectionResult list \<times> PriceHistory" where
  "flash_loop asset_name [] priceHistory = ([], priceHistory)"
| "flash_loop asset_name (p # ps) priceHistory =
     (let (flashLoanResult, priceHistory1) = detectFlashLoan p asset_name priceHistory;
          (rest, priceHistoryB) = flash_loop asset_name ps priceHistory1
      in ((if detected flashLoanResult then [flashLoanResult] else []) @ rest, priceHistoryB))"

text \<open>
  \<^verbatim>\<open>analyzePrices(asset, prices, config)\<close>. One clock reading \<open>now\<close> serves the whole
  pass.
\<close>

definition analyzePrices ::
  "real \<Rightarrow> string \<Rightarrow> OraclePrice list \<Rightarrow> AssetConfig \<Rightarrow> PriceHistory
     \<Rightarrow> DetectionResult list \<times> PriceHistory" where
  "analyzePrices now asset_name prices config priceHistory =
     (let staleResults = filter detected (map (\<lambda>p. detectStaleOracle now p config) prices);
          (flashResults, priceHistory') = flash_loop asset_name prices priceHistory;
          statisticalResults =
            (if length prices \<ge> 3 then performStatisticalAnalysis prices config else [])
      in (staleResults @ flashResults @ statisticalResults, priceHistory'))"

section \<open>Incident store (class MemStorage)\<close>

text \<open>
  The fields of \<^verbatim>\<open>Incident\<close> that the orchestration writes. The evidence fields that
  the source spreads into the incident (\<^verbatim>\<open>...result.details\<close>) are kept together as
  \<open>incident_details\<close>. The delivery flags, which the alert channels set after the
  incident is stored, are left out with the channels.
\<close>

record Incident =
  incident_id :: nat
  incident_type :: IncidentType
  incident_severity :: nat
  incident_chain :: string
  incident_asset :: string
  incident_timestamp :: int
  acknowledged :: bool
  incident_details :: Details
  confirmationCount :: int

text \<open>
  \<^verbatim>\<open>createIncident\<close> stores the incident under a fresh \<^verbatim>\<open>randomUUID()\<close>. The store
  \<^verbatim>\<open>Map<string, Incident>\<close> is modelled by the list of its incidents in the order of
  insertion, and the fresh identifier by the position in that list.
\<close>

definition createIncident :: "Incident \<Rightarrow> Incident list \<Rightarrow> Incident \<times> Incident list" where
  "createIncident incident store =
     (let newIncident = incident\<lparr>incident_id := length store\<rparr>
      in (newIncident, store @ [newIncident]))"

definition acknowledgeIncident :: "nat \<Rightarrow> Incident list \<Rightarrow> Incident list" where
  "acknowledgeIncident incidentId store =
     map (\<lambda>i. if incident_id i = incidentId then i\<lparr>acknowledged := True\<rparr> else i) store"

section \<open>Confirmation orchestrator (class MonitoringService)\<close>

text \<open>
  The state of the orchestration: the confirmation counters
  (\<^verbatim>\<open>incidentConfirmations: Map<string, number>\<close>), the callbacks registered with
  \<^verbatim>\<open>setTimeout\<close> that have not run yet, each with the time at which it is due and the
  key it deletes, and the incident store. Times are clock readings in milliseconds.
\<close>

record Monitor =
  incidentConfirmations :: "string \<Rightarrow> nat option"
  timers :: "(int \<times> string) list"
  incidents :: "Incident list"

definition initial :: Monitor where
  "initial = \<lparr>incidentConfirmations = Map.empty, timers = [], incidents = []\<rparr>"

text \<open>The template string \<^verbatim>\<open>`${asset}-${type}`\<close>.\<close>

definition confirmation_key :: "string \<Rightarrow> string \<Rightarrow> string" where
  "confirmation_key asset_name type_name = asset_name @ ''-'' @ type_name"

text \<open>\<^verbatim>\<open>this.incidentConfirmations.get(key) || 0\<close>.\<close>

definition current_count :: "Monitor \<Rightarrow> string \<Rightarrow> nat" where
  "current_count st key = (case incidentConfirmations st key of None \<Rightarrow> 0 | Some c \<Rightarrow> c)"

text \<open>
  \<^verbatim>\<open>shouldCreateIncident(asset, type, required)\<close>, called at the clock reading \<open>now\<close>:
  the answer and the state after the call. Every call registers a callback due 30000 ms
  later.
\<close>

definition shouldCreateIncident ::
  "int \<Rightarrow> string \<Rightarrow> string \<Rightarrow> int \<Rightarrow> Monitor \<Rightarrow> bool \<times> Monitor" where
  "shouldCreateIncident now asset_name type_name required st =
     (let key = confirmation_key asset_name type_name;
          current = current_count st key;
          newCount = current + 1
      in (int newCount \<ge> required,
          st\<lparr>incidentConfirmations := (incidentConfirmations st)(key \<mapsto> newCount),
             timers := timers st @ [(now + 30000, key)]\<rparr>))"

text \<open>
  The event loop runs a registered callback once its delay has elapsed. The model runs,
  at the clock reading \<open>now\<close>, every callback that is due at or before \<open>now\<close>, in the
  order of registration; each one is \<^verbatim>\<open>this.incidentConfirmations.delete(key)\<close>.
\<close>

definition run_timers :: "int \<Rightarrow> Monitor \<Rightarrow> Monitor" where
  "run_timers now st =
     st\<lparr>incidentConfirmations :=
          fold (\<lambda>(due, key) m. m(key := None))
            (filter (\<lambda>(due, key). due \<le> now) (timers st)) (incidentConfirmations st),
        timers := filter (\<lambda>(due, key). \<not> due \<le> now) (timers st)\<rparr>"

text \<open>
  The chain of the stored incident. The object literal of \<^verbatim>\<open>handleDetection\<close> first
  sets \<^verbatim>\<open>chain: result.details.chain || 'ethereum'\<close> and then spreads
  \<^verbatim>\<open>...result.details\<close>: where the evidence has a \<^verbatim>\<open>chain\<close> of its own (the
  mispricing evidence, and no other) the spread replaces the value set before, also when
  that chain is the empty string; elsewhere the default stays.
\<close>

definition details_chain :: "Details \<Rightarrow> string" where
  "details_chain d =
     (case d of MispricingDetails onchainPrice referencePrice dev c z \<Rightarrow> c
              | _ \<Rightarrow> ''ethereum'')"

text \<open>
  \<^verbatim>\<open>handleDetection(asset, result, systemConfig)\<close> as far as the incident store goes:
  the alert channels, the webhook and the broadcast are outside the model. \<open>t\<close> is
  \<^verbatim>\<open>result.type\<close>, which the caller has checked, and \<open>required\<close> is
  \<^verbatim>\<open>systemConfig.confirmationsRequired\<close>.
\<close>

definition handleDetection ::
  "int \<Rightarrow> string \<Rightarrow> IncidentType \<Rightarrow> DetectionResult \<Rightarrow> int \<Rightarrow> Monitor \<Rightarrow> Monitor" where
  "handleDetection now asset_name t result required st =
     st\<lparr>incidents := snd (createIncident
        \<lparr>incident_id = 0, incident_type = t, incident_severity = severity result,
         incident_chain = details_chain (details result), incident_asset = asset_name,
         incident_timestamp = now, acknowledged = False,
         incident_details = details result, confirmationCount = required\<rparr>
        (incidents st))\<rparr>"

text \<open>The incident that \<open>handleDetection\<close> stores, with the identifier it gets.\<close>

definition new_incident ::
  "int \<Rightarrow> string \<Rightarrow> IncidentType \<Rightarrow> DetectionResult \<Rightarrow> int \<Rightarrow> Monitor \<Rightarrow> Incident" where
  "new_incident now asset_name t result required st =
     \<lparr>incident_id = length (incidents st), incident_type = t,
      incident_severity = severity result,
      incident_chain = details_chain (details result), incident_asset = asset_name,
      incident_timestamp = now, acknowledged = False,
      incident_details = details result, confirmationCount = required\<rparr>"

text \<open>
  The body of the inner loop of \<^verbatim>\<open>monitorCycle\<close>, for one result of the detection
  pass of an asset: \<^verbatim>\<open>if (!result.detected || !result.type) continue\<close>, then
  \<^verbatim>\<open>shouldCreateIncident\<close> and, on a positive answer, \<^verbatim>\<open>handleDetection\<close>.
\<close>

definition process_result ::
  "int \<Rightarrow> string \<Rightarrow> int \<Rightarrow> DetectionResult \<Rightarrow> Monitor \<Rightarrow> Monitor" where
  "process_result now asset_name required result st =
     (case type result of
        None \<Rightarrow> st
      | Some t \<Rightarrow>
          if \<not> detected result then st
          else let (should, st1) =
                     shouldCreateIncident now asset_name (type_string t) required st
               in if should then handleDetection now asset_name t result required st1
                  else st1)"

text \<open>
  An execution of the orchestration: raw detections, each with the clock reading of its
  cycle and its asset, in the order of their arrival; the callbacks that are due run
  before each of them.
\<close>

fun run_detections ::
  "int \<Rightarrow> (int \<times> string \<times> DetectionResult) list \<Rightarrow> Monitor \<Rightarrow> Monitor" where
  "run_detections required [] st = st"
| "run_detections required ((now, asset_name, result) # rest) st =
     run_detections required rest
       (process_result now asset_name required result (run_timers now st))"

text \<open>
  In the words of the specification, an incident is open for an asset and a type at
  \<open>now\<close> when it is theirs, is not acknowledged and is within the cool-down, that is,
  was created less than 30 seconds ago.
\<close>

definition is_open :: "int \<Rightarrow> string \<Rightarrow> IncidentType \<Rightarrow> Incident \<Rightarrow> bool" where
  "is_open now asset_name t i \<longleftrightarrow>
     \<not> acknowledged i \<and> incident_asset i = asset_name \<and> incident_type i = t
     \<and> now - incident_timestamp i < 30000"

section \<open>The standard deviation in the words of the specification\<close>



section \<open>Example data\<close>

text \<open>
  The configurations of ETH and SOL in the default assets of \<^verbatim>\<open>MemStorage\<close>, and an
  observation of asset \<open>a\<close> on chain \<open>c\<close> with price \<open>v\<close> made at \<open>t\<close>
  (milliseconds), in the shape the adapters build.
\<close>

definition ethConfig :: AssetConfig where
  "ethConfig = \<lparr>config_asset = ''ETH'', expectedUpdateInterval = 60, enabled = True,
       thresholds = \<lparr>warning = 10, critical = 15, emergency = 25\<rparr>\<rparr>"


definition observation :: "string \<Rightarrow> string \<Rightarrow> real \<Rightarrow> real \<Rightarrow> OraclePrice" where
  "observation a c v t = \<lparr>chain = c, asset = a, symbol = a @ ''/USD'', price = v,
       source = ''Pyth'', timestamp = t, confidence = 0.99\<rparr>"

text \<open>Cross-source samples of one cycle: five, four and three sources.\<close>

definition five_sources :: "OraclePrice list" where
  "five_sources =
     [observation ''ETH'' ''ethereum'' 100 0, observation ''ETH'' ''arbitrum'' 101 0,
      observation ''ETH'' ''optimism'' 99 0, observation ''ETH'' ''solana'' 102 0,
      observation ''ETH'' ''base'' 150 0]"



text \<open>
  A sample at a threshold: the price 107 deviates from the median 100 by 7 percent, and
  the warning threshold is 7.
\<close>

definition threshold_sources :: "OraclePrice list" where
  "threshold_sources =
     [observation ''ETH'' ''ethereum'' 100 0, observation ''ETH'' ''arbitrum'' 100 0,
      observation ''ETH'' ''optimism'' 107 0]"

definition thresholdConfig :: AssetConfig where
  "thresholdConfig = ethConfig\<lparr>thresholds := \<lparr>warning = 7, critical = 15, emergency = 25\<rparr>\<rparr>"

text \<open>
  A raw mispricing detection, and four of them for ETH, one second apart.
\<close>

definition raw_mispricing :: DetectionResult where
  "raw_mispricing = \<lparr>detected = True, type = Some Mispricing, severity = 3,
          details = MispricingDetails 150 101 (Fin (490000 / 101)) ''base'' 49\<rparr>"

definition four_detections :: "(int \<times> string \<times> DetectionResult) list" where
  "four_detections = map (\<lambda>u. (u, ''ETH'', raw_mispricing)) [0, 1000, 2000, 3000]"

section \<open>Properties of the rounding\<close>

lemma expo_bounds:
  "0 < x \<Longrightarrow> 2 powi (expo x) \<le> x \<and> x < 2 powi (expo x + 1)"
proof (induction x rule: expo.induct)
  case (1 x)
  show ?case
  proof (cases "2 \<le> x")
    case True
    with "1.prems" have e: "expo x = expo (x / 2) + 1" by (subst expo.simps) simp
    from "1.IH"(1) True "1.prems"
    have "2 powi (expo (x / 2)) \<le> x / 2 \<and> x / 2 < 2 powi (expo (x / 2) + 1)" by simp
    then show ?thesis unfolding e by (simp add: power_int_add)
  next
    case False
    show ?thesis
    proof (cases "x < 1")
      case True
      with False "1.prems" have e: "expo x = expo (x * 2) - 1" by (subst expo.simps) simp
      from "1.IH"(2) True False "1.prems"
      have "2 powi (expo (x * 2)) \<le> x * 2 \<and> x * 2 < 2 powi (expo (x * 2) + 1)" by simp
      then show ?thesis unfolding e by (simp add: power_int_add power_int_diff)
    next
      case between: False
      with False "1.prems" have e: "expo x = 0" by (subst expo.simps) simp
      from between False show ?thesis unfolding e by simp
    qed
  qed
qed

lemma rne_of_int [simp]: "rne (of_int n) = n"
  by (simp add: rne_def)

lemma rne_error: "\<bar>of_int (rne y) - y\<bar> \<le> 1 / 2"
  by (auto simp: rne_def Let_def)

text \<open>The relative error of a rounding is at most \<open>2^-53\<close>.\<close>

lemma fl_error: "\<bar>fl x - x\<bar> \<le> \<bar>x\<bar> / 2 ^ 53"
proof (cases "x = 0")
  case True
  then show ?thesis by (simp add: fl_def)
next
  case False
  define k where "k = expo \<bar>x\<bar>"
  define s :: real where "s = 2 powi (k - 52)"
  have pos: "0 < \<bar>x\<bar>" using False by simp
  from expo_bounds[OF pos] have lo: "2 powi k \<le> \<bar>x\<bar>" by (simp add: k_def)
  have s: "0 < s" by (simp add: s_def)
  have fl: "fl x = of_int (rne (x / s)) * s"
    using False by (simp add: fl_def k_def s_def)
  have "fl x - x = (of_int (rne (x / s)) - x / s) * s"
    using s by (simp add: fl field_simps)
  then have "\<bar>fl x - x\<bar> = \<bar>of_int (rne (x / s)) - x / s\<bar> * s"
    using s by (simp add: abs_mult)
  also have "\<dots> \<le> 1 / 2 * s"
    using rne_error[of "x / s"] s by (simp add: mult_right_mono)
  also have "1 / 2 * s = 2 powi k / 2 ^ 53"
    by (simp add: s_def power_int_diff)
  also have "\<dots> \<le> \<bar>x\<bar> / 2 ^ 53"
    using lo by (simp add: divide_right_mono)
  finally show ?thesis .
qed

lemma fl_abs_bounds:
  "\<bar>x\<bar> * (999 / 1000) \<le> \<bar>fl x\<bar>" "\<bar>fl x\<bar> \<le> \<bar>x\<bar> * (1001 / 1000)"
  using fl_error[of x] by (auto simp: abs_if field_simps split: if_splits)

lemma fl_nonneg: "0 \<le> x \<Longrightarrow> 0 \<le> fl x"
  using fl_error[of x] by (auto simp: abs_if field_simps split: if_splits)

text \<open>The integers below \<open>2^53\<close> are doubles.\<close>

lemma fl_of_int:
  assumes "\<bar>i\<bar> < 2 ^ 53"
  shows "fl (of_int i) = of_int i"
proof (cases "i = 0")
  case True
  then show ?thesis by (simp add: fl_def)
next
  case False
  define k where "k = expo \<bar>of_int i :: real\<bar>"
  define n where "n = nat (52 - k)"
  have pos: "0 < \<bar>of_int i :: real\<bar>" using False by simp
  from expo_bounds[OF pos] have lo: "2 powi k \<le> \<bar>of_int i :: real\<bar>"
    by (simp add: k_def)
  have "\<bar>of_int i :: real\<bar> < 2 ^ 53"
    using assms by (metis of_int_abs of_int_less_iff of_int_numeral of_int_power)
  with lo have "(2::real) powi k < 2 powi 53" by simp
  then have "k < 53"
    using power_int_increasing[of 53 k "2::real"] by (cases "k < 53") auto
  then have s: "(2::real) powi (k - 52) = 1 / 2 ^ n"
    by (simp add: n_def power_int_def field_simps)
  have "of_int i / (2 powi (k - 52)) = (of_int (i * 2 ^ n) :: real)"
    unfolding s by simp
  then have "rne (of_int i / (2 powi (k - 52))) = i * 2 ^ n"
    by (simp only: rne_of_int)
  then show ?thesis
    using False unfolding fl_def k_def[symmetric] by (simp add: s)
qed

lemma fl_numeral [simp]:
  "numeral w < (2 ^ 53 :: int) \<Longrightarrow> fl (numeral w) = numeral w"
  using fl_of_int[of "numeral w"] by simp

lemma fl_neg_numeral [simp]:
  "numeral w < (2 ^ 53 :: int) \<Longrightarrow> fl (- numeral w) = - numeral w"
  using fl_of_int[of "- numeral w"] by simp

lemma fl_0 [simp]: "fl 0 = 0"
  by (simp add: fl_def)

lemma fl_1 [simp]: "fl 1 = 1"
  using fl_of_int[of 1] by simp

lemma fl_neg_1 [simp]: "fl (- 1) = - 1"
  using fl_of_int[of "- 1"] by simp

lemma js_round_simps [simp]:
  "js_round (Fin a) = Fin (fl a)" "js_round PInf = PInf" "js_round NInf = NInf"
  "js_round NaN = NaN"
  by (simp_all add: js_round_def)

section \<open>Properties of the stale-oracle rule\<close>



section \<open>Properties of the flash-loan rule\<close>

lemma math_min_Min: "xs \<noteq> [] \<Longrightarrow> math_min xs = Min (set xs)"
proof (cases xs)
  case (Cons a as)
  have "Min (set (a # as)) = fold min as a" by (rule Min.set_eq_fold)
  with Cons show ?thesis by (simp add: math_min_def)
qed simp

lemma math_max_Max: "xs \<noteq> [] \<Longrightarrow> math_max xs = Max (set xs)"
proof (cases xs)
  case (Cons a as)
  have "Max (set (a # as)) = fold max as a" by (rule Max.set_eq_fold)
  with Cons show ?thesis by (simp add: math_max_def)
qed simp

lemma js_bps_pos:
  "0 < b \<Longrightarrow> js_gt (js_times (js_div a b) 10000) c \<longleftrightarrow> c < a / b * 10000"
  by (simp add: js_gt_def js_times_def js_div_def)

lemmas flash_defs = detectFlashLoan_def history_key_def stored_history_def push_history_def
  recentPrices_def HISTORY_SIZE_def FLASH_LOAN_WINDOW_MS_def math_min_def math_max_def
  js_gt_def js_times_def js_div_def Let_def not_detected_def

lemma push_history_last: "currentPrice \<in> set (push_history currentPrice history)"
  by (cases history) (simp_all add: push_history_def HISTORY_SIZE_def Let_def)

lemma recentPrices_current:
  "currentPrice \<in> set (recentPrices currentPrice (push_history currentPrice history))"
  by (simp add: recentPrices_def push_history_last FLASH_LOAN_WINDOW_MS_def)

lemma push_history_explicit:
  "push_history cur h = (if length h < 100 then h @ [cur] else tl h @ [cur])"
  by (cases h) (simp_all add: push_history_def HISTORY_SIZE_def Let_def)

text \<open>
  C8, as the code has it. The history of the flash-loan rule is kept per asset and chain
  (key \<open>asset-chain\<close>), so the sources that report on one chain share it. Let the
  window be the observations stored under the key, after the current one has been
  pushed (the oldest entry is dropped beyond 100), whose timestamp is later than the
  current timestamp minus 15 seconds; when no stored observation is stamped later than
  the current one, this is the trailing window of 15 seconds. The rule fires iff the
  window has at least 2 observations and \<open>(max - min) / min * 10000\<close> over their
  prices strictly exceeds 2000 (the expression evaluated as the source language does,
  and as a real number when \<open>min\<close> is positive); when it fires the result is of type
  \<open>flash_loan\<close> and severity Emergency (3) and carries that quotient, 15 seconds, \<open>min\<close>
  and \<open>max\<close>. In particular, on a key without history, an observation of price 100
  does not fire, a second one 10 seconds later with price 125 fires with 2500 bps, and
  with price 115 it does not fire.
\<close>

theorem detectFlashLoan_rule:
  fixes currentPrice o1 :: OraclePrice and asset_name :: string
    and priceHistory :: PriceHistory
  defines "stored \<equiv> (case priceHistory (asset_name @ ''-'' @ chain currentPrice) of
                        None \<Rightarrow> [] | Some h \<Rightarrow> h)"
  defines "pushed \<equiv> (if length stored < 100 then stored @ [currentPrice]
                      else tl stored @ [currentPrice])"
  defines "window \<equiv> filter (\<lambda>q. timestamp currentPrice - 15000 < timestamp q) pushed"
  defines "trailing \<equiv> filter (\<lambda>q. timestamp currentPrice - 15000 < timestamp q
                                  \<and> timestamp q \<le> timestamp currentPrice) pushed"
  defines "mn \<equiv> Min (price ` set window)"
  defines "mx \<equiv> Max (price ` set window)"
  defines "bps \<equiv> js_times (js_div (mx - mn) mn) 10000"
  defines "r \<equiv> fst (detectFlashLoan currentPrice asset_name priceHistory)"
  defines "r2 \<equiv> fst (detectFlashLoan currentPrice asset_name
                        (snd (detectFlashLoan o1 asset_name priceHistory)))"
  shows "(detected r \<longleftrightarrow> 2 \<le> length window \<and> js_gt bps 2000)
       \<and> (0 < mn \<longrightarrow> (detected r \<longleftrightarrow> 2 \<le> length window \<and> (mx - mn) / mn * 10000 > 2000))
       \<and> (detected r \<longrightarrow> r = \<lparr>detected = True, type = Some Flash_loan, severity = 3,
                                 details = FlashLoanDetails bps 15 mn mx 0\<rparr>)
       \<and> ((\<forall>q \<in> set stored. timestamp q \<le> timestamp currentPrice) \<longrightarrow> window = trailing)
       \<and> snd (detectFlashLoan currentPrice asset_name priceHistory)
             (asset_name @ ''-'' @ chain currentPrice) = Some pushed
       \<and> (priceHistory (asset_name @ ''-'' @ chain o1) = None \<and> chain currentPrice = chain o1
            \<and> timestamp currentPrice = timestamp o1 + 10000 \<and> price o1 = 100 \<longrightarrow>
            \<not> detected (fst (detectFlashLoan o1 asset_name priceHistory))
            \<and> (price currentPrice = 125 \<longrightarrow>
                 r2 = \<lparr>detected = True, type = Some Flash_loan, severity = 3,
                       details = FlashLoanDetails (Fin 2500) 15 100 125 0\<rparr>)
            \<and> (price currentPrice = 115 \<longrightarrow> \<not> detected r2))"
proof -
  have st: "stored_history priceHistory (history_key asset_name currentPrice) = stored"
    by (simp add: stored_history_def history_key_def stored_def)
  have pu: "push_history currentPrice stored = pushed"
    by (simp add: push_history_explicit pushed_def)
  have wi: "recentPrices currentPrice pushed = window"
    unfolding recentPrices_def window_def FLASH_LOAN_WINDOW_MS_def
    by (intro filter_cong) auto
  have ne: "2 \<le> length window \<Longrightarrow> map price window \<noteq> []"
    by auto
  have mins: "2 \<le> length window \<Longrightarrow> math_min (map price window) = mn"
    "2 \<le> length window \<Longrightarrow> math_max (map price window) = mx"
    using ne by (simp_all add: math_min_Min math_max_Max mn_def mx_def)
  have res: "r = (if length window < 2 then not_detected
                  else if js_gt bps 2000
                  then \<lparr>detected = True, type = Some Flash_loan, severity = 3,
                         details = FlashLoanDetails bps 15 mn mx 0\<rparr>
                  else not_detected)"
    unfolding r_def
    using mins by (simp add: detectFlashLoan_def Let_def st pu wi bps_def FLASH_LOAN_WINDOW_MS_def)
  have 1: "detected r \<longleftrightarrow> 2 \<le> length window \<and> js_gt bps 2000"
    unfolding res by (simp add: not_detected_def)
  have 2: "0 < mn \<longrightarrow> (detected r \<longleftrightarrow> 2 \<le> length window \<and> (mx - mn) / mn * 10000 > 2000)"
    unfolding 1 bps_def by (simp add: js_bps_pos)
  have 3: "detected r \<longrightarrow> r = \<lparr>detected = True, type = Some Flash_loan, severity = 3,
                                 details = FlashLoanDetails bps 15 mn mx 0\<rparr>"
    unfolding res by (simp add: not_detected_def)
  have 4: "(\<forall>q \<in> set stored. timestamp q \<le> timestamp currentPrice) \<longrightarrow> window = trailing"
  proof
    assume a: "\<forall>q \<in> set stored. timestamp q \<le> timestamp currentPrice"
    have "set pushed \<subseteq> set stored \<union> {currentPrice}"
      by (cases stored) (auto simp: pushed_def)
    with a have "\<forall>q \<in> set pushed. timestamp q \<le> timestamp currentPrice" by auto
    then show "window = trailing"
      unfolding window_def trailing_def by (intro filter_cong) auto
  qed
  have 5: "snd (detectFlashLoan currentPrice asset_name priceHistory)
             (asset_name @ ''-'' @ chain currentPrice) = Some pushed"
    using st pu by (simp add: detectFlashLoan_def Let_def history_key_def)
  have 6: "priceHistory (asset_name @ ''-'' @ chain o1) = None \<and> chain currentPrice = chain o1
            \<and> timestamp currentPrice = timestamp o1 + 10000 \<and> price o1 = 100 \<longrightarrow>
            \<not> detected (fst (detectFlashLoan o1 asset_name priceHistory))
            \<and> (price currentPrice = 125 \<longrightarrow>
                 r2 = \<lparr>detected = True, type = Some Flash_loan, severity = 3,
                       details = FlashLoanDetails (Fin 2500) 15 100 125 0\<rparr>)
            \<and> (price currentPrice = 115 \<longrightarrow> \<not> detected r2)"
    unfolding r2_def by (simp add: flash_defs)
  from 1 2 3 4 5 6 show ?thesis by blast
qed


theorem detectFlashLoan_rule_witness:
  "fst (detectFlashLoan (observation ''ETH'' ''ethereum'' 125 10000) ''ETH''
         [''ETH-ethereum'' \<mapsto> [observation ''ETH'' ''ethereum'' 100 0]])
     = \<lparr>detected = True, type = Some Flash_loan, severity = 3,
         details = FlashLoanDetails (Fin 2500) 15 100 125 0\<rparr>
   \<and> fst (detectFlashLoan (observation ''ETH'' ''ethereum'' 125 10000) ''ETH''
         (snd (detectFlashLoan (observation ''ETH'' ''ethereum'' 100 0) ''ETH'' Map.empty)))
     = \<lparr>detected = True, type = Some Flash_loan, severity = 3,
         details = FlashLoanDetails (Fin 2500) 15 100 125 0\<rparr>
   \<and> \<not> detected (fst (detectFlashLoan (observation ''ETH'' ''ethereum'' 100 0) ''ETH'' Map.empty))
   \<and> \<not> detected (fst (detectFlashLoan (observation ''ETH'' ''ethereum'' 115 10000) ''ETH''
         (snd (detectFlashLoan (observation ''ETH'' ''ethereum'' 100 0) ''ETH'' Map.empty))))
   \<and> filter (\<lambda>q. timestamp (observation ''ETH'' ''ethereum'' 125 10000) - 15000 < timestamp q)
        [observation ''ETH'' ''ethereum'' 100 0, observation ''ETH'' ''ethereum'' 125 10000]
      = filter (\<lambda>q. timestamp (observation ''ETH'' ''ethereum'' 125 10000) - 15000 < timestamp q
                     \<and> timestamp q \<le> timestamp (observation ''ETH'' ''ethereum'' 125 10000))
          [observation ''ETH'' ''ethereum'' 100 0, observation ''ETH'' ''ethereum'' 125 10000]"
proof -
  let ?o = "observation ''ETH'' ''ethereum'' 100 0"
  let ?c = "observation ''ETH'' ''ethereum'' 125 10000"
  let ?c2 = "observation ''ETH'' ''ethereum'' 115 10000"
  note i1 = detectFlashLoan_rule
      [where currentPrice = ?c and asset_name = "''ETH''"
         and priceHistory = "[''ETH-ethereum'' \<mapsto> [?o]]" and ?o1.0 = ?o]
  note i2 = detectFlashLoan_rule
      [where currentPrice = ?c and asset_name = "''ETH''"
         and priceHistory = Map.empty and ?o1.0 = ?o]
  note i3 = detectFlashLoan_rule
      [where currentPrice = ?c2 and asset_name = "''ETH''"
         and priceHistory = Map.empty and ?o1.0 = ?o]
  note ex2 = i2[THEN conjunct2, THEN conjunct2, THEN conjunct2, THEN conjunct2, THEN conjunct2]
  note ex3 = i3[THEN conjunct2, THEN conjunct2, THEN conjunct2, THEN conjunct2, THEN conjunct2]
  from i1[THEN conjunct2, THEN conjunct1]
  have d: "detected (fst (detectFlashLoan ?c ''ETH'' [''ETH-ethereum'' \<mapsto> [?o]]))"
    by (simp add: observation_def)
  from i1[THEN conjunct2, THEN conjunct2, THEN conjunct1] d
  have 1: "fst (detectFlashLoan ?c ''ETH'' [''ETH-ethereum'' \<mapsto> [?o]])
     = \<lparr>detected = True, type = Some Flash_loan, severity = 3,
         details = FlashLoanDetails (Fin 2500) 15 100 125 0\<rparr>"
    by (simp add: observation_def js_times_def js_div_def)
  from ex2 have 2: "fst (detectFlashLoan ?c ''ETH'' (snd (detectFlashLoan ?o ''ETH'' Map.empty)))
     = \<lparr>detected = True, type = Some Flash_loan, severity = 3,
         details = FlashLoanDetails (Fin 2500) 15 100 125 0\<rparr>
     \<and> \<not> detected (fst (detectFlashLoan ?o ''ETH'' Map.empty))"
    by (simp add: observation_def)
  from ex3 have 3: "\<not> detected (fst (detectFlashLoan ?c2 ''ETH''
         (snd (detectFlashLoan ?o ''ETH'' Map.empty))))"
    by (simp add: observation_def)
  have older: "\<forall>q \<in> set [?o]. timestamp q \<le> timestamp ?c"
    by (simp add: observation_def)
  from i1[THEN conjunct2, THEN conjunct2, THEN conjunct2, THEN conjunct1]
  have "(\<forall>q \<in> set [?o]. timestamp q \<le> timestamp ?c) \<longrightarrow>
      filter (\<lambda>q. timestamp ?c - 15000 < timestamp q) [?o, ?c]
      = filter (\<lambda>q. timestamp ?c - 15000 < timestamp q \<and> timestamp q \<le> timestamp ?c)
          [?o, ?c]"
    by (simp add: observation_def)
  with older have 4: "filter (\<lambda>q. timestamp ?c - 15000 < timestamp q) [?o, ?c]
      = filter (\<lambda>q. timestamp ?c - 15000 < timestamp q \<and> timestamp q \<le> timestamp ?c)
          [?o, ?c]"
    by blast
  from 1 2 3 4 show ?thesis by blast
qed

text \<open>
  C8 as stated fails: with one observation stored under the key of (ETH, solana), made by
  another source and stamped 100 seconds after the current one, the rule fires on the
  current observation, although the current observation is the only one of the history
  within the trailing 15 seconds and the only one of its source.
\<close>

theorem flash_loan_fires_outside_trailing_window:
  "detected (fst (detectFlashLoan (observation ''ETH'' ''solana'' 100 0) ''ETH''
       [''ETH-solana'' \<mapsto> [(observation ''ETH'' ''solana'' 125 100000)\<lparr>source := ''RedStone''\<rparr>]]))
   \<and> timestamp (observation ''ETH'' ''solana'' 100 0)
       < timestamp ((observation ''ETH'' ''solana'' 125 100000)\<lparr>source := ''RedStone''\<rparr>)
   \<and> source ((observation ''ETH'' ''solana'' 125 100000)\<lparr>source := ''RedStone''\<rparr>)
       \<noteq> source (observation ''ETH'' ''solana'' 100 0)"
  by (simp add: flash_defs observation_def)

text \<open>
  C5, as the code has it. The flash-loan rule is a function of the current observation,
  the asset and the stored history of its key, but it is not free of effects: it stores,
  under its key, the history with the current observation appended (and the oldest entry
  dropped beyond 100 entries), and leaves every other key as it was. The stale-oracle
  rule and the statistical analysis take no stored state and return none, so the state
  after a detection pass is the one the flash-loan calls leave.
\<close>

theorem detectFlashLoan_frame:
  fixes currentPrice :: OraclePrice and asset_name :: string
    and priceHistory priceHistoryB :: PriceHistory
  defines "key \<equiv> history_key asset_name currentPrice"
  shows "snd (detectFlashLoan currentPrice asset_name priceHistory)
           = priceHistory(key \<mapsto> push_history currentPrice (stored_history priceHistory key))
       \<and> (\<forall>k. k \<noteq> key \<longrightarrow>
            snd (detectFlashLoan currentPrice asset_name priceHistory) k = priceHistory k)
       \<and> (priceHistory key = priceHistoryB key \<longrightarrow>
            fst (detectFlashLoan currentPrice asset_name priceHistory)
              = fst (detectFlashLoan currentPrice asset_name priceHistoryB))
       \<and> snd (analyzePrices now asset_name prices config priceHistory)
           = snd (flash_loop asset_name prices priceHistory)"
  unfolding key_def
  by (simp add: detectFlashLoan_def analyzePrices_def Let_def stored_history_def
        split: prod.splits)

theorem detectFlashLoan_frame_witness:
  "snd (detectFlashLoan (observation ''ETH'' ''ethereum'' 100 0) ''ETH'' Map.empty) ''ETH-ethereum''
     = Some [observation ''ETH'' ''ethereum'' 100 0]
   \<and> snd (detectFlashLoan (observation ''ETH'' ''ethereum'' 100 0) ''ETH'' Map.empty) ''ETH-solana'' = None
   \<and> fst (detectFlashLoan (observation ''ETH'' ''ethereum'' 100 0) ''ETH'' Map.empty)
       = fst (detectFlashLoan (observation ''ETH'' ''ethereum'' 100 0) ''ETH''
               [''ETH-solana'' \<mapsto> [observation ''ETH'' ''solana'' 100 0]])"
  using detectFlashLoan_frame
      [where currentPrice = "observation ''ETH'' ''ethereum'' 100 0" and asset_name = "''ETH''"
         and priceHistory = Map.empty
         and priceHistoryB = "[''ETH-solana'' \<mapsto> [observation ''ETH'' ''solana'' 100 0]]"]
  by (simp add: observation_def history_key_def stored_history_def push_history_def
        HISTORY_SIZE_def)

text \<open>
  C5 as stated fails: evaluating the flash-loan rule on an engine without history
  leaves an engine with history.
\<close>

theorem detectFlashLoan_changes_history:
  "snd (detectFlashLoan (observation ''ETH'' ''ethereum'' 100 0) ''ETH'' Map.empty) \<noteq> Map.empty"
proof
  assume "snd (detectFlashLoan (observation ''ETH'' ''ethereum'' 100 0) ''ETH'' Map.empty) = Map.empty"
  then have "snd (detectFlashLoan (observation ''ETH'' ''ethereum'' 100 0) ''ETH'' Map.empty)
               ''ETH-ethereum'' = None"
    by simp
  then show False by (simp add: flash_defs observation_def)
qed

lemma flash_loop_history:
  "stored_history (snd (flash_loop a ps ph)) k
     = fold push_history (filter (\<lambda>q. history_key a q = k) ps) (stored_history ph k)"
proof (induction ps arbitrary: ph)
  case Nil
  then show ?case by simp
next
  case (Cons p ps)
  let ?ph1 = "ph(history_key a p \<mapsto> push_history p (stored_history ph (history_key a p)))"
  have s: "snd (detectFlashLoan p a ph) = ?ph1"
    by (simp add: detectFlashLoan_def Let_def)
  have step: "snd (flash_loop a (p # ps) ph) = snd (flash_loop a ps ?ph1)"
    by (simp add: split_def Let_def s)
  have st: "stored_history ?ph1 k
      = (if k = history_key a p then push_history p (stored_history ph k)
         else stored_history ph k)"
    by (simp add: stored_history_def)
  have "stored_history (snd (flash_loop a (p # ps) ph)) k
      = fold push_history (filter (\<lambda>q. history_key a q = k) ps) (stored_history ?ph1 k)"
    unfolding step by (rule Cons.IH)
  also have "\<dots> = fold push_history (filter (\<lambda>q. history_key a q = k) (p # ps))
                      (stored_history ph k)"
    unfolding st by auto
  finally show ?case .
qed

lemma flash_loop_append:
  "fst (flash_loop a (ps @ qs) ph)
     = fst (flash_loop a ps ph) @ fst (flash_loop a qs (snd (flash_loop a ps ph)))"
  by (induction ps arbitrary: ph) (simp_all add: split_def Let_def)

lemma detectFlashLoan_result:
  "fst (detectFlashLoan p a ph)
     = (let recent = recentPrices p (push_history p (stored_history ph (history_key a p)))
        in if length recent < 2 then not_detected
           else if js_gt (js_times (js_div (math_max (map price recent) - math_min (map price recent))
                     (math_min (map price recent))) 10000) 2000
           then \<lparr>detected = True, type = Some Flash_loan, severity = 3,
                  details = FlashLoanDetails
                     (js_times (js_div (math_max (map price recent) - math_min (map price recent))
                     (math_min (map price recent))) 10000) (FLASH_LOAN_WINDOW_MS / 1000)
                     (math_min (map price recent)) (math_max (map price recent)) 0\<rparr>
           else not_detected)"
  by (simp add: detectFlashLoan_def Let_def)

text \<open>
  C4, as the code has it. The detection pass validates no price. After the pass the
  history of every key is its old history with all the observations of the pass for
  that key pushed in order, whatever their prices. For every observation \<open>p\<close> of the
  pass: \<open>p\<close> belongs to the window of its own flash-loan evaluation, taken over the
  history that the earlier observations of the pass have left, so the divisor of that
  evaluation, the least price of the window, is at most the price of \<open>p\<close> (zero or
  negative when that price is); when the window has at least 2 observations and the
  quotient exceeds 2000 bps the pass returns the flash-loan result with that divisor;
  and the pass returns the stale-oracle result of \<open>p\<close> when that rule fires.
\<close>

theorem analyzePrices_no_price_validation:
  fixes prices :: "OraclePrice list" and now :: real and a :: string
    and config :: AssetConfig and priceHistory :: PriceHistory and i :: nat
  defines "results \<equiv> fst (analyzePrices now a prices config priceHistory)"
  defines "after \<equiv> snd (analyzePrices now a prices config priceHistory)"
  defines "p \<equiv> prices ! i"
  defines "earlier \<equiv> filter (\<lambda>q. a @ ''-'' @ chain q = a @ ''-'' @ chain p) (take i prices)"
  defines "before \<equiv> fold push_history earlier
                      (stored_history priceHistory (a @ ''-'' @ chain p))"
  defines "recent \<equiv> filter (\<lambda>q. timestamp p - timestamp q < 15000) (push_history p before)"
  defines "mn \<equiv> Min (price ` set recent)"
  defines "mx \<equiv> Max (price ` set recent)"
  defines "bps \<equiv> js_times (js_div (mx - mn) mn) 10000"
  assumes "i < length prices"
  shows "(\<forall>k. stored_history after k
             = fold push_history (filter (\<lambda>q. a @ ''-'' @ chain q = k) prices)
                 (stored_history priceHistory k))
       \<and> p \<in> set recent
       \<and> mn \<le> price p
       \<and> (2 \<le> length recent \<and> js_gt bps 2000 \<longrightarrow>
            \<lparr>detected = True, type = Some Flash_loan, severity = 3,
             details = FlashLoanDetails bps 15 mn mx 0\<rparr> \<in> set results)
       \<and> (detected (detectStaleOracle now p config) \<longrightarrow>
            detectStaleOracle now p config \<in> set results)"
proof -
  have key: "\<And>q. history_key a q = a @ ''-'' @ chain q"
    by (simp add: history_key_def)
  have after: "after = snd (flash_loop a prices priceHistory)"
    by (simp add: after_def analyzePrices_def Let_def split: prod.splits)
  have 1: "\<forall>k. stored_history after k
             = fold push_history (filter (\<lambda>q. a @ ''-'' @ chain q = k) prices)
                 (stored_history priceHistory k)"
    unfolding after by (simp add: flash_loop_history key)
  have pin: "p \<in> set (push_history p before)" by (rule push_history_last)
  then have 2: "p \<in> set recent" by (simp add: recent_def)
  then have ne: "recent \<noteq> []" by auto
  have fin: "finite (price ` set recent)" by simp
  have 3: "mn \<le> price p"
    unfolding mn_def using 2 by (simp add: Min_le)
  let ?ph = "snd (flash_loop a (take i prices) priceHistory)"
  have before: "stored_history ?ph (history_key a p) = before"
    by (simp add: flash_loop_history key before_def earlier_def)
  have rec: "recentPrices p (push_history p (stored_history ?ph (history_key a p))) = recent"
    by (simp add: before recentPrices_def recent_def FLASH_LOAN_WINDOW_MS_def)
  have mins: "math_min (map price recent) = mn" "math_max (map price recent) = mx"
    using ne by (simp_all add: math_min_Min math_max_Max mn_def mx_def)
  have split: "prices = take i prices @ [p] @ drop (Suc i) prices"
    using assms(10) by (simp add: p_def id_take_nth_drop)
  have "fst (flash_loop a prices priceHistory)
      = fst (flash_loop a (take i prices) priceHistory)
        @ fst (flash_loop a ([p] @ drop (Suc i) prices) ?ph)"
    by (subst split) (rule flash_loop_append)
  then have inres: "detected (fst (detectFlashLoan p a ?ph)) \<Longrightarrow>
      fst (detectFlashLoan p a ?ph) \<in> set (fst (flash_loop a prices priceHistory))"
    by (simp add: split_def Let_def)
  have res: "results = filter detected (map (\<lambda>p. detectStaleOracle now p config) prices)
       @ fst (flash_loop a prices priceHistory)
       @ (if 3 \<le> length prices then performStatisticalAnalysis prices config else [])"
    by (simp add: results_def analyzePrices_def Let_def split: prod.splits)
  have 4: "2 \<le> length recent \<and> js_gt bps 2000 \<longrightarrow>
            \<lparr>detected = True, type = Some Flash_loan, severity = 3,
             details = FlashLoanDetails bps 15 mn mx 0\<rparr> \<in> set results"
  proof
    assume c: "2 \<le> length recent \<and> js_gt bps 2000"
    then have "fst (detectFlashLoan p a ?ph)
        = \<lparr>detected = True, type = Some Flash_loan, severity = 3,
             details = FlashLoanDetails bps 15 mn mx 0\<rparr>"
      unfolding detectFlashLoan_result rec
      by (simp add: mins bps_def FLASH_LOAN_WINDOW_MS_def)
    with inres show "\<lparr>detected = True, type = Some Flash_loan, severity = 3,
             details = FlashLoanDetails bps 15 mn mx 0\<rparr> \<in> set results"
      unfolding res by simp
  qed
  have pmem: "p \<in> set prices" using assms(10) by (simp add: p_def)
  have 5: "detected (detectStaleOracle now p config) \<longrightarrow>
            detectStaleOracle now p config \<in> set results"
    unfolding res using pmem by simp
  from 1 2 3 4 5 show ?thesis by blast
qed

theorem analyzePrices_no_price_validation_witness:
  "stored_history
     (snd (analyzePrices 400000 ''ETH'' [observation ''ETH'' ''ethereum'' 0 1000] ethConfig
            [''ETH-ethereum'' \<mapsto> [observation ''ETH'' ''ethereum'' 100 0]]))
     ''ETH-ethereum''
     = [observation ''ETH'' ''ethereum'' 100 0, observation ''ETH'' ''ethereum'' 0 1000]
   \<and> \<lparr>detected = True, type = Some Flash_loan, severity = 3,
       details = FlashLoanDetails PInf 15 0 100 0\<rparr>
       \<in> set (fst (analyzePrices 400000 ''ETH'' [observation ''ETH'' ''ethereum'' 0 1000]
                  ethConfig [''ETH-ethereum'' \<mapsto> [observation ''ETH'' ''ethereum'' 100 0]]))
   \<and> detectStaleOracle 400000 (observation ''ETH'' ''ethereum'' 0 1000) ethConfig
       \<in> set (fst (analyzePrices 400000 ''ETH'' [observation ''ETH'' ''ethereum'' 0 1000]
                  ethConfig [''ETH-ethereum'' \<mapsto> [observation ''ETH'' ''ethereum'' 100 0]]))"
proof -
  let ?cur = "observation ''ETH'' ''ethereum'' 0 1000"
  let ?old = "observation ''ETH'' ''ethereum'' 100 0"
  let ?ph = "[''ETH-ethereum'' \<mapsto> [?old]]"
  have len: "0 < length [?cur]" by simp
  note inst = analyzePrices_no_price_validation
      [where prices = "[?cur]" and i = 0 and a = "''ETH''" and priceHistory = ?ph
         and now = 400000 and config = ethConfig, OF len]
  note c1 = inst[THEN conjunct1, rule_format, of "''ETH-ethereum''"]
  note c4 = inst[THEN conjunct2, THEN conjunct2, THEN conjunct2, THEN conjunct1]
  note c5 = inst[THEN conjunct2, THEN conjunct2, THEN conjunct2, THEN conjunct2]
  from c1 have 1: "stored_history
     (snd (analyzePrices 400000 ''ETH'' [?cur] ethConfig ?ph)) ''ETH-ethereum'' = [?old, ?cur]"
    by (simp add: observation_def stored_history_def push_history_def HISTORY_SIZE_def)
  from c4 have 2: "\<lparr>detected = True, type = Some Flash_loan, severity = 3,
        details = FlashLoanDetails PInf 15 0 100 0\<rparr>
       \<in> set (fst (analyzePrices 400000 ''ETH'' [?cur] ethConfig ?ph))"
    by (simp add: observation_def stored_history_def push_history_def HISTORY_SIZE_def
          js_times_def js_div_def js_gt_def)
  from c5 have 3: "detectStaleOracle 400000 ?cur ethConfig
       \<in> set (fst (analyzePrices 400000 ''ETH'' [?cur] ethConfig ?ph))"
    by (simp add: detectStaleOracle_def observation_def ethConfig_def)
  from 1 2 3 show ?thesis by blast
qed

text \<open>
  C4 as stated fails: an observation with price 0 passes through the detection pass into
  the flash-loan rule, whose divisor is then 0; the quotient is \<^verbatim>\<open>Infinity\<close> and the
  rule fires.
\<close>

theorem analyzePrices_zero_price_reaches_flash_loan:
  "fst (analyzePrices 1000 ''ETH'' [observation ''ETH'' ''ethereum'' 0 1000] ethConfig
         [''ETH-ethereum'' \<mapsto> [observation ''ETH'' ''ethereum'' 100 0]])
     = [\<lparr>detected = True, type = Some Flash_loan, severity = 3,
          details = FlashLoanDetails PInf 15 0 100 0\<rparr>]"
  by (simp add: analyzePrices_def detectStaleOracle_def observation_def ethConfig_def flash_defs)

section \<open>Properties of the statistical analysis\<close>

lemma sorted_nth_count_less:
  fixes xs :: "real list"
  assumes "sorted xs" "i < length xs"
  shows "length (filter (\<lambda>v. v < xs ! i) xs) \<le> i"
proof -
  have "filter (\<lambda>v. v < xs ! i) (drop i xs) = []"
    using assms by (auto simp: filter_empty_conv in_set_conv_nth sorted_iff_nth_mono not_less)
  then have "filter (\<lambda>v. v < xs ! i) xs = filter (\<lambda>v. v < xs ! i) (take i xs)"
    by (metis append_Nil2 append_take_drop_id filter_append)
  then have "length (filter (\<lambda>v. v < xs ! i) xs) \<le> length (take i xs)"
    by (metis length_filter_le)
  then show ?thesis by simp
qed

lemma sorted_nth_count_le:
  fixes xs :: "real list"
  assumes "sorted xs" "i < length xs"
  shows "i < length (filter (\<lambda>v. v \<le> xs ! i) xs)"
proof -
  have "filter (\<lambda>v. v \<le> xs ! i) (take (Suc i) xs) = take (Suc i) xs"
    using assms by (auto simp: filter_id_conv in_set_conv_nth sorted_iff_nth_mono)
  then have "length (filter (\<lambda>v. v \<le> xs ! i) xs)
      = length (take (Suc i) xs) + length (filter (\<lambda>v. v \<le> xs ! i) (drop (Suc i) xs))"
    by (metis append_take_drop_id filter_append length_append)
  with assms show ?thesis by simp
qed

lemma count_sort: "length (filter P (sort xs)) = length (filter P (xs::real list))"
  by (simp add: filter_sort)

lemma median_order_statistic:
  assumes "values \<noteq> []"
  shows "length (filter (\<lambda>v. v < median values) values) \<le> length values div 2"
    and "length values div 2 < length (filter (\<lambda>v. v \<le> median values) values)"
proof -
  have i: "length values div 2 < length (sort values)" using assms by (cases "values") simp_all
  have s: "sorted (sort values)" by simp
  show "length (filter (\<lambda>v. v < median values) values) \<le> length values div 2"
    using sorted_nth_count_less[OF s i] by (simp add: median_def count_sort)
  show "length values div 2 < length (filter (\<lambda>v. v \<le> median values) values)"
    using sorted_nth_count_le[OF s i] by (simp add: median_def count_sort)
qed

lemma median_in_set: "values \<noteq> [] \<Longrightarrow> median values \<in> set values"
proof -
  assume "values \<noteq> []"
  then have "length values div 2 < length (sort values)" by (cases "values") simp_all
  then have "sort values ! (length values div 2) \<in> set (sort values)" by (rule nth_mem)
  then show ?thesis by (simp add: median_def)
qed

lemma mad_median: "mad values = median (deviationsFromMedian values)"
  by (simp add: mad_def median_def)

lemma mad_nonneg: "values \<noteq> [] \<Longrightarrow> 0 \<le> mad values"
proof -
  assume "values \<noteq> []"
  then have "deviationsFromMedian values \<noteq> []" by (simp add: deviationsFromMedian_def)
  then have "median (deviationsFromMedian values) \<in> set (deviationsFromMedian values)"
    by (rule median_in_set)
  then show ?thesis by (auto simp: mad_median deviationsFromMedian_def)
qed





lemma stale_types:
  "r \<in> set (filter detected (map (\<lambda>p. detectStaleOracle now p config) prices))
     \<Longrightarrow> type r = Some Stale_oracle"
  by (auto simp: detectStaleOracle_def Let_def not_detected_def split: if_splits)

lemma detectFlashLoan_type:
  "detected (fst (detectFlashLoan p a ph)) \<Longrightarrow> type (fst (detectFlashLoan p a ph)) = Some Flash_loan"
  by (simp add: detectFlashLoan_def Let_def not_detected_def split: if_splits)

lemma flash_types:
  "r \<in> set (fst (flash_loop a ps ph)) \<Longrightarrow> type r = Some Flash_loan"
proof (induction ps arbitrary: ph)
  case Nil
  then show ?case by simp
next
  case (Cons p ps)
  obtain r1 ph1 where d: "detectFlashLoan p a ph = (r1, ph1)" by (cases "detectFlashLoan p a ph")
  obtain rs ph2 where l: "flash_loop a ps ph1 = (rs, ph2)" by (cases "flash_loop a ps ph1")
  from Cons.prems d l have "r \<in> set (if detected r1 then [r1] else []) \<or> r \<in> set rs"
    by simp
  then show ?case
  proof
    assume "r \<in> set (if detected r1 then [r1] else [])"
    then have "r = r1" "detected r1" by (auto split: if_splits)
    with detectFlashLoan_type[of p a ph] d show ?thesis by simp
  next
    assume "r \<in> set rs"
    with Cons.IH[of ph1] l show ?thesis by simp
  qed
qed

lemma mispricing_types:
  "r \<in> set (concat (map (mispricing_check vs config) prices)) \<Longrightarrow> type r = Some Mispricing"
  by (auto simp: mispricing_check_def split: if_splits)

lemma divergence_types:
  "r \<in> set (divergence_check prices) \<Longrightarrow> type r = Some Divergence"
  by (auto simp: divergence_check_def Let_def split: if_splits)

lemma analyzePrices_results:
  "fst (analyzePrices now a prices config ph)
     = filter detected (map (\<lambda>p. detectStaleOracle now p config) prices)
       @ fst (flash_loop a prices ph)
       @ (if 3 \<le> length prices
          then divergence_check prices
               @ concat (map (mispricing_check (map price prices) config) prices)
          else [])"
  by (auto simp: analyzePrices_def Let_def performStatisticalAnalysis_def split: prod.splits)

lemma filter_none: "(\<And>r. r \<in> set xs \<Longrightarrow> \<not> P r) \<Longrightarrow> filter P xs = []"
  by (simp add: filter_empty_conv)

lemma filter_all: "(\<And>r. r \<in> set xs \<Longrightarrow> P r) \<Longrightarrow> filter P xs = xs"
  by (simp add: filter_id_conv)


lemma mispricing_results:
  "filter (\<lambda>r. type r = Some Mispricing) (fst (analyzePrices now a prices config ph))
     = (if 3 \<le> length prices
        then concat (map (mispricing_check (map price prices) config) prices) else [])"
proof -
  have 1: "filter (\<lambda>r. type r = Some Mispricing)
             (filter detected (map (\<lambda>p. detectStaleOracle now p config) prices)) = []"
    by (rule filter_none) (use stale_types in fastforce)
  have 2: "filter (\<lambda>r. type r = Some Mispricing) (fst (flash_loop a prices ph)) = []"
    by (rule filter_none) (use flash_types in fastforce)
  have 3: "filter (\<lambda>r. type r = Some Mispricing)
             (concat (map (mispricing_check (map price prices) config) prices))
           = concat (map (mispricing_check (map price prices) config) prices)"
    by (rule filter_all) (use mispricing_types in fastforce)
  have 4: "filter (\<lambda>r. type r = Some Mispricing) (divergence_check prices) = []"
    by (rule filter_none) (use divergence_types in fastforce)
  show ?thesis
    unfolding analyzePrices_results by (simp add: 1 2 3 4 del: filter_filter)
qed


text \<open>
  C6, as the code has it. For every even number \<open>n \<ge> 2\<close> of samples the median of
  the analyzer is the element at 0-based index \<open>n / 2\<close> of the ascending-sorted values,
  the upper-middle order statistic: at most \<open>n / 2\<close> samples are strictly below it and
  at least \<open>n / 2 + 1\<close> samples are at or below it. The same convention gives the inner
  median of the MAD, taken over the absolute deviations from the median.
\<close>

theorem median_upper_middle:
  fixes "values" :: "real list"
  defines "n \<equiv> length values"
  defines "devs \<equiv> deviationsFromMedian values"
  assumes "even n" and "2 \<le> n"
  shows "median values = sort values ! (n div 2)
       \<and> mad values = sort devs ! (n div 2)
       \<and> mad values = median devs
       \<and> length (filter (\<lambda>v. v < median values) values) \<le> n div 2
       \<and> n div 2 < length (filter (\<lambda>v. v \<le> median values) values)
       \<and> length (filter (\<lambda>d. d < mad values) devs) \<le> n div 2
       \<and> n div 2 < length (filter (\<lambda>d. d \<le> mad values) devs)"
proof -
  from assms have ne: "values \<noteq> []" by auto
  then have dne: "devs \<noteq> []" by (simp add: devs_def deviationsFromMedian_def)
  have len: "length devs = n" by (simp add: devs_def deviationsFromMedian_def n_def)
  show ?thesis
    using median_order_statistic[OF ne] median_order_statistic[OF dne] len
    by (simp add: mad_median[symmetric, unfolded devs_def[symmetric]] devs_def[symmetric]
          n_def[symmetric] median_def mad_def)
qed

theorem median_upper_middle_witness:
  "median [100, 101, 102, 150] = 102 \<and> mad [100, 101, 102, 150] = 2"
  using median_upper_middle[of "[100, 101, 102, 150]"]
  by (simp add: deviationsFromMedian_def median_def)

text \<open>
  C6 as stated fails: for the four samples 100, 101, 102, 150 the analyzer's median is
  102, the element at index 2, and not the lower-middle element 101 at index 1.
\<close>

theorem median_lower_middle_counterexample:
  "median [100, 101, 102, 150]
     \<noteq> sort [100, 101, 102, 150] ! (length [100 :: real, 101, 102, 150] div 2 - 1)"
  by (simp add: median_def)

text \<open>
  The percent deviation of the mispricing check when the median is not zero, and its
  distance from the exact quotient: four roundings, each with a relative error of at
  most \<open>2^-53\<close>.
\<close>

lemma absDeviationPercent_Fin:
  "median values \<noteq> 0 \<Longrightarrow>
   absDeviationPercent values p
     = Fin (fl (\<bar>fl (fl (fl (price p - median values) / median values) * 10000)\<bar> / 100))"
  by (simp add: absDeviationPercent_def deviationBps_def js_div_def js_times_def js_abs_def
        js_over_def)

lemma pct_bounds:
  fixes x m :: real
  assumes "m \<noteq> 0"
  defines "P \<equiv> fl (\<bar>fl (fl (fl x / m) * 10000)\<bar> / 100)"
  shows "\<bar>x / m\<bar> * (995 / 10) \<le> P" and "P \<le> \<bar>x / m\<bar> * (1005 / 10)"
proof -
  define X where "X = \<bar>x\<bar> / \<bar>m\<bar>"
  define D where "D = \<bar>fl x\<bar> / \<bar>m\<bar>"
  define A where "A = \<bar>fl (fl x / m)\<bar>"
  define B where "B = \<bar>fl (fl (fl x / m) * 10000)\<bar>"
  have m: "0 < \<bar>m\<bar>" using assms(1) by simp
  have X: "0 \<le> X" by (simp add: X_def)
  have "\<bar>x\<bar> * (999 / 1000) / \<bar>m\<bar> \<le> \<bar>fl x\<bar> / \<bar>m\<bar>"
    using fl_abs_bounds(1)[of x] m by (intro divide_right_mono) auto
  then have d1: "X * (999 / 1000) \<le> D" by (simp add: X_def D_def)
  have "\<bar>fl x\<bar> / \<bar>m\<bar> \<le> \<bar>x\<bar> * (1001 / 1000) / \<bar>m\<bar>"
    using fl_abs_bounds(2)[of x] m by (intro divide_right_mono) auto
  then have d2: "D \<le> X * (1001 / 1000)" by (simp add: X_def D_def)
  have Dabs: "\<bar>fl x / m\<bar> = D" by (simp add: D_def)
  have a1: "D * (999 / 1000) \<le> A" and a2: "A \<le> D * (1001 / 1000)"
    using fl_abs_bounds[of "fl x / m"] unfolding Dabs A_def by simp_all
  have Babs: "\<bar>fl (fl x / m) * 10000\<bar> = A * 10000" by (simp add: A_def abs_mult)
  have b1: "A * 10000 * (999 / 1000) \<le> B" and b2: "B \<le> A * 10000 * (1001 / 1000)"
    using fl_abs_bounds[of "fl (fl x / m) * 10000"] unfolding Babs B_def by simp_all
  have B: "0 \<le> B" by (simp add: B_def)
  have Pn: "0 \<le> P" unfolding P_def by (rule fl_nonneg) simp
  have Cabs: "\<bar>B / 100\<bar> = B / 100" using B by simp
  have "B / 100 * (999 / 1000) \<le> \<bar>P\<bar>" "\<bar>P\<bar> \<le> B / 100 * (1001 / 1000)"
    using fl_abs_bounds[of "B / 100"] unfolding Cabs P_def B_def by simp_all
  with Pn have c1: "B / 100 * (999 / 1000) \<le> P" and c2: "P \<le> B / 100 * (1001 / 1000)"
    by simp_all
  have Xabs: "\<bar>x / m\<bar> = X" by (simp add: X_def)
  show "\<bar>x / m\<bar> * (995 / 10) \<le> P"
    unfolding Xabs using X d1 a1 b1 c1 by linarith
  show "P \<le> \<bar>x / m\<bar> * (1005 / 10)"
    unfolding Xabs using X d2 a2 b2 c2 by linarith
qed

lemma abs_pct_gt:
  assumes "median values \<noteq> 0"
    and "c < \<bar>(price p - median values) / median values\<bar> * (995 / 10)"
  shows "js_gt (absDeviationPercent values p) c"
  using pct_bounds(1)[OF assms(1), of "price p - median values"] assms(2)
  by (simp add: absDeviationPercent_Fin[OF assms(1)] js_gt_def)

lemma abs_pct_le:
  assumes "median values \<noteq> 0"
    and "\<bar>(price p - median values) / median values\<bar> * (1005 / 10) \<le> c"
  shows "\<not> js_gt (absDeviationPercent values p) c"
  using pct_bounds(2)[OF assms(1), of "price p - median values"] assms(2)
  by (simp add: absDeviationPercent_Fin[OF assms(1)] js_gt_def)






lemma zScore_alt:
  "vs \<noteq> [] \<Longrightarrow>
   zScore vs p = (if mad vs = 0 then 0 else fl (\<bar>fl (price p - median vs)\<bar> / mad vs))"
  using mad_nonneg[of vs] by (simp add: zScore_def)

text \<open>
  The roundings of the deviation of 107 from the median 100: \<open>7 / 100\<close> is not a
  double, the three operations give 0.07000000000000000666, 700.0000000000001137 and
  7.000000000000000888.
\<close>

lemma fl_seven_percent:
  "fl (7 / 100) = 1261007895663739 / 18014398509481984"
  by (simp add: fl_def rne_def Let_def expo.simps power_int_minus_divide)

lemma fl_seven_percent_bps:
  "fl (fl (7 / 100) * 10000) = 6157265115545601 / 8796093022208"
  unfolding fl_seven_percent
  by (simp add: fl_def rne_def Let_def expo.simps power_int_minus_divide)

lemma fl_seven_percent_pct:
  "fl (\<bar>fl (fl (7 / 100) * 10000)\<bar> / 100) = 7881299347898369 / 1125899906842624"
  unfolding fl_seven_percent_bps
  by (simp add: fl_def rne_def Let_def expo.simps power_int_minus_divide)

text \<open>
  C10. In a cycle with at least 3 sources let \<open>med\<close> be the median of the prices and,
  for the price \<open>p\<close> of a source, \<open>dev = (p - med) / med * 10000\<close>,
  \<open>pct = |dev| / 100\<close> and \<open>z = |p - med| / MAD\<close> (0 when the MAD is 0), each
  operation rounded to the nearest double as the source language does, and a division
  by a zero median giving an infinity or \<^verbatim>\<open>NaN\<close>. The detection pass returns the
  mispricing outcome of a source iff \<open>pct\<close> exceeds the warning threshold or \<open>z\<close>
  exceeds 2.5; the severity of the outcome is Emergency (3) when \<open>pct\<close> exceeds the
  emergency threshold, else Critical (2) when it exceeds the critical threshold, else
  Warning (1). The mispricing results of the pass are exactly these outcomes, in the
  order of the sources. For the prices 100, 101, 99, 102, 150 and the thresholds 10, 15,
  25 the median is 101 and the only mispricing result is the one of the price 150, an
  Emergency. For the prices 100, 100, 107 and a warning threshold of 7 the price 107 is
  flagged, as a Warning: its \<open>pct\<close> is 7.000000000000000888.
\<close>

theorem mispricing_rule:
  fixes prices :: "OraclePrice list" and now :: real and asset_name :: string
    and config :: AssetConfig and priceHistory :: PriceHistory
  defines "values \<equiv> map price prices"
  defines "med \<equiv> sort values ! (length values div 2)"
  defines "madv \<equiv> sort (map (\<lambda>v. \<bar>fl (v - med)\<bar>) values) ! (length values div 2)"
  defines "d \<equiv> \<lambda>q. fl (price q - med)"
  defines "dev \<equiv> \<lambda>q. if med = 0
                        then (if 0 < d q then PInf else if d q < 0 then NInf else NaN)
                        else Fin (fl (fl (d q / med) * 10000))"
  defines "pct \<equiv> \<lambda>q. case dev q of Fin x \<Rightarrow> Fin (fl (\<bar>x\<bar> / 100)) | NaN \<Rightarrow> NaN | _ \<Rightarrow> PInf"
  defines "z \<equiv> \<lambda>q. if madv = 0 then 0 else fl (\<bar>d q\<bar> / madv)"
  defines "fires \<equiv> \<lambda>q. js_gt (pct q) (warning (thresholds config)) \<or> z q > 2.5"
  defines "outcome \<equiv> \<lambda>q.
     \<lparr>detected = True, type = Some Mispricing,
      severity = (if js_gt (pct q) (emergency (thresholds config)) then 3
                  else if js_gt (pct q) (critical (thresholds config)) then 2 else 1),
      details = MispricingDetails (price q) med (js_abs (dev q)) (chain q) (z q)\<rparr>"
  defines "results \<equiv> fst (analyzePrices now asset_name prices config priceHistory)"
  assumes "3 \<le> length prices"
  shows "(\<forall>p \<in> set prices. outcome p \<in> set results \<longleftrightarrow> fires p)
       \<and> filter (\<lambda>r. type r = Some Mispricing) results
           = concat (map (\<lambda>q. if fires q then [outcome q] else []) prices)
       \<and> (map price prices = [100, 101, 99, 102, 150]
            \<and> thresholds config = \<lparr>warning = 10, critical = 15, emergency = 25\<rparr> \<longrightarrow>
            med = 101
            \<and> filter (\<lambda>r. type r = Some Mispricing) results
                = [\<lparr>detected = True, type = Some Mispricing, severity = 3,
                    details = MispricingDetails 150 101
                                (Fin \<bar>fl (fl (49 / 101) * 10000)\<bar>) (chain (prices ! 4)) 49\<rparr>])
       \<and> (map price prices = [100, 100, 107]
            \<and> thresholds config = \<lparr>warning = 7, critical = 15, emergency = 25\<rparr> \<longrightarrow>
            filter (\<lambda>r. type r = Some Mispricing) results
              = [\<lparr>detected = True, type = Some Mispricing, severity = 1,
                  details = MispricingDetails 107 100
                              (Fin (6157265115545601 / 8796093022208)) (chain (prices ! 2)) 0\<rparr>])"
proof -
  from assms have ne: "values \<noteq> []" by (auto simp: values_def)
  have med: "median values = med" by (simp add: median_def med_def)
  have madv: "mad values = madv"
    by (simp add: mad_def deviationsFromMedian_def med madv_def)
  have z: "zScore values q = z q" for q
    using zScore_alt[OF ne, of q] by (simp add: z_def d_def med madv)
  have dev: "deviationBps values q = dev q" for q
    by (simp add: deviationBps_def med dev_def d_def js_div_def js_times_def)
  have pct: "absDeviationPercent values q = pct q" for q
    by (simp add: absDeviationPercent_def dev pct_def js_abs_def js_over_def js_div_def
          split: jsnum.splits)
  have chk: "mispricing_check values config q = (if fires q then [outcome q] else [])" for q
    by (simp add: mispricing_check_def pct z dev med fires_def outcome_def zScoreThreshold_def)
  have chkf: "mispricing_check values config = (\<lambda>q. if fires q then [outcome q] else [])"
    by (rule ext) (rule chk)
  have mis: "filter (\<lambda>r. type r = Some Mispricing) results
           = concat (map (\<lambda>q. if fires q then [outcome q] else []) prices)"
    using assms(11) unfolding results_def
    by (simp add: mispricing_results values_def[symmetric] chkf)
  have same: "fires q = fires p" if "outcome q = outcome p" for p q
  proof -
    from that have "price q = price p" by (simp add: outcome_def)
    then show ?thesis by (simp add: fires_def pct_def dev_def d_def z_def)
  qed
  have iff: "\<forall>p \<in> set prices. outcome p \<in> set results \<longleftrightarrow> fires p"
  proof
    fix p assume p: "p \<in> set prices"
    have "outcome p \<in> set results
        \<longleftrightarrow> outcome p \<in> set (filter (\<lambda>r. type r = Some Mispricing) results)"
      by (auto simp: outcome_def)
    also have "\<dots> \<longleftrightarrow> outcome p \<in> outcome ` {q \<in> set prices. fires q}"
      unfolding mis by auto
    also have "\<dots> \<longleftrightarrow> (\<exists>q \<in> set prices. fires q \<and> outcome q = outcome p)"
      unfolding image_iff Bex_def mem_Collect_eq by metis
    also have "\<dots> \<longleftrightarrow> fires p"
      using p same by blast
    finally show "outcome p \<in> set results \<longleftrightarrow> fires p" .
  qed
  have ex: "map price prices = [100, 101, 99, 102, 150]
            \<and> thresholds config = \<lparr>warning = 10, critical = 15, emergency = 25\<rparr> \<longrightarrow>
            med = 101
            \<and> filter (\<lambda>r. type r = Some Mispricing) results
                = [\<lparr>detected = True, type = Some Mispricing, severity = 3,
                    details = MispricingDetails 150 101
                                (Fin \<bar>fl (fl (49 / 101) * 10000)\<bar>) (chain (prices ! 4)) 49\<rparr>]"
  proof (intro impI, elim conjE)
    assume vs: "map price prices = [100, 101, 99, 102, 150]"
      and th: "thresholds config = \<lparr>warning = 10, critical = 15, emergency = 25\<rparr>"
    from vs obtain p0 p1 p2 p3 p4 where ps: "prices = [p0, p1, p2, p3, p4]"
      and pr: "price p0 = 100" "price p1 = 101" "price p2 = 99" "price p3 = 102" "price p4 = 150"
      by (auto simp: map_eq_Cons_conv)
    have v: "values = [100, 101, 99, 102, 150]" using vs by (simp add: values_def)
    have m: "med = 101" by (simp add: med_def v)
    have md: "madv = 1" by (simp add: madv_def v m)
    have nz: "median values \<noteq> 0" by (simp add: med m)
    have low: "\<not> js_gt (pct q) 10" if "price q \<in> {100, 101, 99, 102}" for q
      unfolding pct[symmetric]
      by (rule abs_pct_le[OF nz]) (use that in \<open>auto simp: med m\<close>)
    have high: "js_gt (pct p4) 25"
      unfolding pct[symmetric]
      by (rule abs_pct_gt[OF nz]) (simp add: med m pr)
    then have high2: "js_gt (pct p4) 10"
      by (cases "pct p4") (auto simp: js_gt_def)
    have zs: "z p0 = 1" "z p1 = 0" "z p2 = 2" "z p3 = 1" "z p4 = 49"
      by (simp_all add: z_def d_def md m pr)
    have f: "\<not> fires p0" "\<not> fires p1" "\<not> fires p2" "\<not> fires p3" "fires p4"
      using low[of p0] low[of p1] low[of p2] low[of p3] high2
      by (simp_all add: fires_def th zs pr)
    have o4: "outcome p4 = \<lparr>detected = True, type = Some Mispricing, severity = 3,
                    details = MispricingDetails 150 101
                                (Fin \<bar>fl (fl (49 / 101) * 10000)\<bar>) (chain p4) 49\<rparr>"
      using high by (simp add: outcome_def th zs pr m dev_def d_def js_abs_def)
    show "med = 101
            \<and> filter (\<lambda>r. type r = Some Mispricing) results
                = [\<lparr>detected = True, type = Some Mispricing, severity = 3,
                    details = MispricingDetails 150 101
                                (Fin \<bar>fl (fl (49 / 101) * 10000)\<bar>) (chain (prices ! 4)) 49\<rparr>]"
      unfolding mis using m f o4 by (simp add: ps)
  qed
  have ex2: "map price prices = [100, 100, 107]
            \<and> thresholds config = \<lparr>warning = 7, critical = 15, emergency = 25\<rparr> \<longrightarrow>
            filter (\<lambda>r. type r = Some Mispricing) results
              = [\<lparr>detected = True, type = Some Mispricing, severity = 1,
                  details = MispricingDetails 107 100
                              (Fin (6157265115545601 / 8796093022208)) (chain (prices ! 2)) 0\<rparr>]"
  proof (intro impI, elim conjE)
    assume vs: "map price prices = [100, 100, 107]"
      and th: "thresholds config = \<lparr>warning = 7, critical = 15, emergency = 25\<rparr>"
    from vs obtain p0 p1 p2 where ps: "prices = [p0, p1, p2]"
      and pr: "price p0 = 100" "price p1 = 100" "price p2 = 107"
      by (auto simp: map_eq_Cons_conv)
    have v: "values = [100, 100, 107]" using vs by (simp add: values_def)
    have m: "med = 100" by (simp add: med_def v)
    have md: "madv = 0" by (simp add: madv_def v m)
    have nz: "median values \<noteq> 0" by (simp add: med m)
    have low: "\<not> js_gt (pct q) 7" if "price q = 100" for q
      unfolding pct[symmetric]
      by (rule abs_pct_le[OF nz]) (use that in \<open>simp add: med m\<close>)
    have dev2: "dev p2 = Fin (fl (fl (7 / 100) * 10000))"
      by (simp add: dev_def d_def m pr)
    then have "pct p2 = Fin (fl (\<bar>fl (fl (7 / 100) * 10000)\<bar> / 100))"
      by (simp add: pct_def)
    then have pct2: "pct p2 = Fin (7881299347898369 / 1125899906842624)"
      by (simp only: fl_seven_percent_pct)
    have abs2: "js_abs (dev p2) = Fin (6157265115545601 / 8796093022208)"
      by (simp add: dev2 fl_seven_percent_bps js_abs_def)
    have zs: "z q = 0" for q by (simp add: z_def md)
    have f: "\<not> fires p0" "\<not> fires p1" "fires p2"
      using low[of p0] low[of p1]
      by (simp_all add: fires_def th zs pr pct2 js_gt_def)
    have o2: "outcome p2 = \<lparr>detected = True, type = Some Mispricing, severity = 1,
                  details = MispricingDetails 107 100
                              (Fin (6157265115545601 / 8796093022208)) (chain p2) 0\<rparr>"
      by (simp add: outcome_def th zs pr m pct2 js_gt_def abs2)
    show "filter (\<lambda>r. type r = Some Mispricing) results
              = [\<lparr>detected = True, type = Some Mispricing, severity = 1,
                  details = MispricingDetails 107 100
                              (Fin (6157265115545601 / 8796093022208)) (chain (prices ! 2)) 0\<rparr>]"
      unfolding mis using f o2 by (simp add: ps)
  qed
  from iff mis ex ex2 show ?thesis by blast
qed

theorem mispricing_rule_witness:
  "filter (\<lambda>r. type r = Some Mispricing)
        (fst (analyzePrices 0 ''ETH'' five_sources ethConfig Map.empty))
      = [\<lparr>detected = True, type = Some Mispricing, severity = 3,
          details = MispricingDetails 150 101 (Fin \<bar>fl (fl (49 / 101) * 10000)\<bar>) ''base'' 49\<rparr>]
   \<and> filter (\<lambda>r. type r = Some Mispricing)
        (fst (analyzePrices 0 ''ETH'' threshold_sources thresholdConfig Map.empty))
      = [\<lparr>detected = True, type = Some Mispricing, severity = 1,
          details = MispricingDetails 107 100 (Fin (6157265115545601 / 8796093022208))
                      ''optimism'' 0\<rparr>]"
proof -
  have len: "3 \<le> length five_sources" "3 \<le> length threshold_sources"
    by (simp_all add: five_sources_def threshold_sources_def)
  note inst = mispricing_rule
      [where prices = five_sources and config = ethConfig and now = 0
         and asset_name = "''ETH''" and priceHistory = Map.empty, OF len(1)]
  note inst2 = mispricing_rule
      [where prices = threshold_sources and config = thresholdConfig and now = 0
         and asset_name = "''ETH''" and priceHistory = Map.empty, OF len(2)]
  have vs: "map price five_sources = [100, 101, 99, 102, 150]"
    "map price threshold_sources = [100, 100, 107]"
    by (simp_all add: five_sources_def threshold_sources_def observation_def)
  have th: "thresholds ethConfig = \<lparr>warning = 10, critical = 15, emergency = 25\<rparr>"
    "thresholds thresholdConfig = \<lparr>warning = 7, critical = 15, emergency = 25\<rparr>"
    by (simp_all add: ethConfig_def thresholdConfig_def)
  have ch: "chain (five_sources ! 4) = ''base''" "chain (threshold_sources ! 2) = ''optimism''"
    by (simp_all add: five_sources_def threshold_sources_def observation_def)
  from inst vs(1) th(1)
  have "filter (\<lambda>r. type r = Some Mispricing)
          (fst (analyzePrices 0 ''ETH'' five_sources ethConfig Map.empty))
        = [\<lparr>detected = True, type = Some Mispricing, severity = 3,
            details = MispricingDetails 150 101 (Fin \<bar>fl (fl (49 / 101) * 10000)\<bar>)
                        (chain (five_sources ! 4)) 49\<rparr>]"
    by blast
  then have 1: "filter (\<lambda>r. type r = Some Mispricing)
          (fst (analyzePrices 0 ''ETH'' five_sources ethConfig Map.empty))
        = [\<lparr>detected = True, type = Some Mispricing, severity = 3,
            details = MispricingDetails 150 101 (Fin \<bar>fl (fl (49 / 101) * 10000)\<bar>)
                        ''base'' 49\<rparr>]"
    by (simp only: ch)
  from inst2 vs(2) th(2)
  have "filter (\<lambda>r. type r = Some Mispricing)
          (fst (analyzePrices 0 ''ETH'' threshold_sources thresholdConfig Map.empty))
        = [\<lparr>detected = True, type = Some Mispricing, severity = 1,
            details = MispricingDetails 107 100 (Fin (6157265115545601 / 8796093022208))
                        (chain (threshold_sources ! 2)) 0\<rparr>]"
    by blast
  then have 2: "filter (\<lambda>r. type r = Some Mispricing)
          (fst (analyzePrices 0 ''ETH'' threshold_sources thresholdConfig Map.empty))
        = [\<lparr>detected = True, type = Some Mispricing, severity = 1,
            details = MispricingDetails 107 100 (Fin (6157265115545601 / 8796093022208))
                        ''optimism'' 0\<rparr>]"
    by (simp only: ch)
  from 1 2 show ?thesis by blast
qed

section \<open>Properties of the confirmation orchestrator\<close>

lemmas mon_defs = run_timers_def process_result_def shouldCreateIncident_def
  handleDetection_def createIncident_def confirmation_key_def current_count_def initial_def
  raw_mispricing_def details_chain_def Let_def

text \<open>
  C1, as the code has it. For every key, a raw detection sets the counter of the key to
  the old count plus one (1 when the key is absent), registers one more callback, leaves
  the other keys and the incidents as they are, and is confirmed iff the new count is at
  least \<open>confirmationsRequired\<close>. The entry is not deleted on a confirmation: it holds
  the new count, so that, as long as no callback removes it, the next detection of the
  key counts on from the confirmed total and is confirmed again. With 3 confirmations
  required and no entry at the start, of four consecutive detections the first two are
  not confirmed, the third is (count 3) and the fourth is too (count 4).
\<close>

theorem shouldCreateIncident_counter:
  fixes now now2 t1 t2 t3 t4 :: int and asset_name type_name :: string and required :: int
    and st :: Monitor
  defines "key \<equiv> confirmation_key asset_name type_name"
  defines "current \<equiv> current_count st key"
  defines "first \<equiv> shouldCreateIncident now asset_name type_name required st"
  defines "second \<equiv> shouldCreateIncident now2 asset_name type_name required (snd first)"
  defines "s1 \<equiv> shouldCreateIncident t1 asset_name type_name 3 st"
  defines "s2 \<equiv> shouldCreateIncident t2 asset_name type_name 3 (snd s1)"
  defines "s3 \<equiv> shouldCreateIncident t3 asset_name type_name 3 (snd s2)"
  defines "s4 \<equiv> shouldCreateIncident t4 asset_name type_name 3 (snd s3)"
  shows "(fst first \<longleftrightarrow> required \<le> int current + 1)
       \<and> incidentConfirmations (snd first) key = Some (current + 1)
       \<and> (\<forall>k. k \<noteq> key \<longrightarrow> incidentConfirmations (snd first) k = incidentConfirmations st k)
       \<and> timers (snd first) = timers st @ [(now + 30000, key)]
       \<and> incidents (snd first) = incidents st
       \<and> (fst first \<longrightarrow> fst second \<and> incidentConfirmations (snd second) key = Some (current + 2))
       \<and> (incidentConfirmations st key = None \<longrightarrow>
            [fst s1, fst s2, fst s3, fst s4] = [False, False, True, True]
            \<and> incidentConfirmations (snd s1) key = Some 1
            \<and> incidentConfirmations (snd s3) key = Some 3
            \<and> incidentConfirmations (snd s4) key = Some 4)"
  unfolding first_def second_def s1_def s2_def s3_def s4_def current_def key_def
  by (simp add: shouldCreateIncident_def current_count_def Let_def add.commute)

lemma run_timers_none_due:
  assumes "\<forall>(d, k) \<in> set (timers st). now < d"
  shows "run_timers now st = st"
proof -
  have 1: "filter (\<lambda>(due, key). due \<le> now) (timers st) = []"
    using assms by (auto simp: filter_empty_conv)
  have 2: "filter (\<lambda>(due, key). \<not> due \<le> now) (timers st) = timers st"
    using assms by (auto simp: filter_id_conv)
  show ?thesis by (simp add: run_timers_def 1 2)
qed

lemma process_result_step:
  fixes a :: string and t :: IncidentType and r :: DetectionResult
  assumes "detected r" "type r = Some t"
  defines "key \<equiv> confirmation_key a (type_string t)"
  shows "incidents (process_result now a required r st)
           = incidents st @ (if required \<le> int (current_count st key) + 1
                             then [new_incident now a t r required st] else [])"
    and "incidentConfirmations (process_result now a required r st)
           = (incidentConfirmations st)(key \<mapsto> current_count st key + 1)"
    and "timers (process_result now a required r st) = timers st @ [(now + 30000, key)]"
  using assms
  by (simp_all add: process_result_def shouldCreateIncident_def handleDetection_def
        createIncident_def new_incident_def Let_def)

lemma count_from:
  "length (filter (\<lambda>j. required \<le> int j) [1 ..< 1 + k])
     = nat (min (int k) (int k + 1 - required))"
  by (induction k) auto

lemma run_window:
  assumes r: "detected r" "type r = Some t"
    and now: "\<forall>u \<in> set ts. now - u < 30000"
  shows "(\<forall>(d, k) \<in> set (timers st). T + 30000 \<le> d) \<Longrightarrow>
         (\<forall>u \<in> set ts. T \<le> u \<and> u < T + 30000) \<Longrightarrow>
         current_count (run_detections required (map (\<lambda>u. (u, a, r)) ts) st)
             (confirmation_key a (type_string t))
           = current_count st (confirmation_key a (type_string t)) + length ts
         \<and> length (filter (is_open now a t)
               (incidents (run_detections required (map (\<lambda>u. (u, a, r)) ts) st)))
           = length (filter (is_open now a t) (incidents st))
             + length (filter (\<lambda>j. required \<le> int j)
                 [current_count st (confirmation_key a (type_string t)) + 1
                   ..< current_count st (confirmation_key a (type_string t)) + 1 + length ts])"
  using now
proof (induction ts arbitrary: st)
  case Nil
  then show ?case by simp
next
  case (Cons u us)
  let ?key = "confirmation_key a (type_string t)"
  let ?st1 = "process_result u a required r (run_timers u st)"
  from Cons.prems have u: "T \<le> u" "u < T + 30000" "now - u < 30000" by auto
  from Cons.prems(1) u have "\<forall>(d, k) \<in> set (timers st). u < d" by fastforce
  then have rt: "run_timers u st = st" by (rule run_timers_none_due)
  have inc: "incidents ?st1 = incidents st @ (if required \<le> int (current_count st ?key) + 1
                             then [new_incident u a t r required st] else [])"
    and cnt: "current_count ?st1 ?key = current_count st ?key + 1"
    and tm: "timers ?st1 = timers st @ [(u + 30000, ?key)]"
    unfolding rt using process_result_step[OF r, of u a required st]
    by (simp_all add: current_count_def)
  have inv1: "\<forall>(d, k) \<in> set (timers ?st1). T + 30000 \<le> d"
    using Cons.prems(1) u unfolding tm by auto
  have opn: "is_open now a t (new_incident u a t r required st)"
    using u by (simp add: is_open_def new_incident_def)
  have ih: "current_count (run_detections required (map (\<lambda>u. (u, a, r)) us) ?st1) ?key
           = current_count ?st1 ?key + length us
         \<and> length (filter (is_open now a t)
               (incidents (run_detections required (map (\<lambda>u. (u, a, r)) us) ?st1)))
           = length (filter (is_open now a t) (incidents ?st1))
             + length (filter (\<lambda>j. required \<le> int j)
                 [current_count ?st1 ?key + 1 ..< current_count ?st1 ?key + 1 + length us])"
    using Cons.IH[OF inv1] Cons.prems by simp
  have upt: "[current_count st ?key + 1 ..< current_count st ?key + 1 + length (u # us)]
      = (current_count st ?key + 1) # [current_count st ?key + 2 ..< current_count st ?key + 2 + length us]"
    by (simp add: upt_rec)
  show ?case
    using ih opn unfolding upt by (simp add: cnt inc)
qed

theorem shouldCreateIncident_counter_witness:
  "fst (shouldCreateIncident 0 ''ETH'' ''mispricing'' 1 initial)
   \<and> fst (shouldCreateIncident 1000 ''ETH'' ''mispricing'' 1
            (snd (shouldCreateIncident 0 ''ETH'' ''mispricing'' 1 initial)))
   \<and> incidentConfirmations
        (snd (shouldCreateIncident 1000 ''ETH'' ''mispricing'' 1
               (snd (shouldCreateIncident 0 ''ETH'' ''mispricing'' 1 initial))))
        ''ETH-mispricing'' = Some 2
   \<and> incidentConfirmations (snd (shouldCreateIncident 0 ''ETH'' ''mispricing'' 1 initial))
        ''ETH-flash_loan'' = None
   \<and> fst (shouldCreateIncident 3000 ''ETH'' ''mispricing'' 3
            (snd (shouldCreateIncident 2000 ''ETH'' ''mispricing'' 3
              (snd (shouldCreateIncident 1000 ''ETH'' ''mispricing'' 3
                (snd (shouldCreateIncident 0 ''ETH'' ''mispricing'' 3 initial)))))))"
proof -
  note inst = shouldCreateIncident_counter
      [where st = initial and asset_name = "''ETH''" and type_name = "''mispricing''"
         and required = 1 and now = 0 and ?now2.0 = 1000
         and ?t1.0 = 0 and ?t2.0 = 1000 and ?t3.0 = 2000 and ?t4.0 = 3000]
  have key: "confirmation_key ''ETH'' ''mispricing'' = ''ETH-mispricing''"
    by (simp add: confirmation_key_def)
  have cur: "current_count initial ''ETH-mispricing'' = 0"
    "incidentConfirmations initial ''ETH-mispricing'' = None"
    "incidentConfirmations initial ''ETH-flash_loan'' = None"
    by (simp_all add: current_count_def initial_def)
  from inst show ?thesis
    unfolding key by (simp add: cur)
qed

text \<open>
  C1 as stated fails: after three detections of (ETH, mispricing) one second apart, with
  3 confirmations required, one incident exists and the counter is still there, at 3;
  the fourth detection a second later raises it to 4 and creates a second incident.
\<close>

theorem confirmation_counter_not_reset:
  "incidentConfirmations (run_detections 3 (take 3 four_detections) initial)
     ''ETH-mispricing'' = Some 3
   \<and> length (incidents (run_detections 3 (take 3 four_detections) initial)) = 1
   \<and> incidentConfirmations (run_detections 3 four_detections initial)
       ''ETH-mispricing'' = Some 4
   \<and> length (incidents (run_detections 3 four_detections initial)) = 2"
  by (simp add: four_detections_def mon_defs)

text \<open>
  C2, as the code has it. A raw detection creates at most one incident, and creates one
  exactly when the incremented counter of its key is at least \<open>confirmationsRequired\<close>;
  the incident is unacknowledged, carries the asset, the type, the severity and the
  evidence of the detection and the time of the cycle, and its chain is the chain of the
  mispricing evidence and \<open>ethereum\<close> for the other types; the incidents already stored
  are left as they are. The open incidents of a key are not limited to one: from the
  empty state, \<open>k\<close> raw detections of one asset and type whose times lie within one
  window of 30 seconds leave \<open>max 0 (min k (k + 1 - confirmationsRequired))\<close> open
  incidents of that asset and type.
\<close>

theorem run_detections_open_incidents:
  fixes required now T :: int and ts :: "int list" and a :: string
    and r :: DetectionResult and t :: IncidentType and st :: Monitor
  defines "count \<equiv> (case incidentConfirmations st (a @ ''-'' @ type_string t) of
                       None \<Rightarrow> 0 | Some c \<Rightarrow> c)"
  defines "created \<equiv>
     \<lparr>incident_id = length (incidents st), incident_type = t,
      incident_severity = severity r,
      incident_chain = (case details r of
                          MispricingDetails onchainPrice referencePrice dev c z \<Rightarrow> c
                        | _ \<Rightarrow> ''ethereum''),
      incident_asset = a, incident_timestamp = now, acknowledged = False,
      incident_details = details r, confirmationCount = required\<rparr>"
  assumes "detected r" and "type r = Some t"
    and "\<forall>u \<in> set ts. T \<le> u \<and> u < T + 30000" and "\<forall>u \<in> set ts. now - u < 30000"
  shows "incidents (process_result now a required r st)
           = incidents st @ (if required \<le> int count + 1 then [created] else [])
       \<and> length (filter (is_open now a t)
            (incidents (run_detections required (map (\<lambda>u. (u, a, r)) ts) initial)))
           = nat (min (int (length ts)) (int (length ts) + 1 - required))"
proof -
  have cnt: "current_count st (confirmation_key a (type_string t)) = count"
    by (simp add: current_count_def confirmation_key_def count_def)
  have new: "new_incident now a t r required st = created"
    by (simp add: new_incident_def created_def details_chain_def)
  have step: "incidents (process_result now a required r st)
           = incidents st @ (if required \<le> int count + 1 then [created] else [])"
    using process_result_step(1)[OF assms(3,4), of now a required st]
    unfolding cnt new by simp
  have inv: "\<forall>(d, k) \<in> set (timers initial). T + 30000 \<le> d"
    by (simp add: initial_def)
  have c0: "current_count initial (confirmation_key a (type_string t)) = 0"
    "incidents initial = []"
    by (simp_all add: current_count_def initial_def)
  from run_window[OF assms(3,4,6) inv assms(5), of required a]
  have "length (filter (is_open now a t)
            (incidents (run_detections required (map (\<lambda>u. (u, a, r)) ts) initial)))
        = length (filter (\<lambda>j. required \<le> int j) [1 ..< 1 + length ts])"
    unfolding c0 by simp
  with count_from[of required "length ts"] step show ?thesis by simp
qed

theorem run_detections_open_incidents_witness:
  "length (filter (is_open 4000 ''ETH'' Mispricing)
     (incidents (run_detections 3
        (map (\<lambda>u. (u, ''ETH'', raw_mispricing)) [0, 1000, 2000, 3000, 4000]) initial))) = 3
   \<and> length (filter (is_open 4000 ''ETH'' Mispricing)
     (incidents (run_detections 0
        (map (\<lambda>u. (u, ''ETH'', raw_mispricing)) [4000]) initial))) = 1
   \<and> incidents (process_result 4000 ''ETH'' 3 raw_mispricing initial) = []
   \<and> map incident_chain
        (incidents (process_result 4000 ''ETH'' 1 (raw_mispricing\<lparr>details :=
            MispricingDetails 150 101 (Fin 4851) [] 49\<rparr>) initial)) = [[]]"
proof -
  have r: "detected raw_mispricing" "type raw_mispricing = Some Mispricing"
    by (simp_all add: raw_mispricing_def)
  let ?r2 = "raw_mispricing\<lparr>details := MispricingDetails 150 101 (Fin 4851) [] 49\<rparr>"
  have r2: "detected ?r2" "type ?r2 = Some Mispricing"
    by (simp_all add: raw_mispricing_def)
  have ts: "\<forall>u \<in> set [0, 1000, 2000, 3000, 4000 :: int]. 0 \<le> u \<and> u < 0 + 30000"
    "\<forall>u \<in> set [0, 1000, 2000, 3000, 4000 :: int]. 4000 - u < 30000"
    by simp_all
  have ts1: "\<forall>u \<in> set [4000 :: int]. 0 \<le> u \<and> u < 0 + 30000"
    "\<forall>u \<in> set [4000 :: int]. 4000 - u < 30000"
    by simp_all
  have c: "incidentConfirmations initial (''ETH'' @ ''-'' @ type_string Mispricing) = None"
    "incidents initial = []"
    by (simp_all add: initial_def)
  from run_detections_open_incidents
      [where required = 3 and a = "''ETH''" and st = initial, OF r ts]
  have 1: "length (filter (is_open 4000 ''ETH'' Mispricing)
     (incidents (run_detections 3
        (map (\<lambda>u. (u, ''ETH'', raw_mispricing)) [0, 1000, 2000, 3000, 4000]) initial))) = 3
     \<and> incidents (process_result 4000 ''ETH'' 3 raw_mispricing initial) = []"
    unfolding c by simp
  from run_detections_open_incidents
      [where required = 0 and a = "''ETH''" and st = initial, OF r ts1]
  have 2: "length (filter (is_open 4000 ''ETH'' Mispricing)
     (incidents (run_detections 0
        (map (\<lambda>u. (u, ''ETH'', raw_mispricing)) [4000]) initial))) = 1"
    by simp
  from run_detections_open_incidents
      [where required = 1 and a = "''ETH''" and st = initial, OF r2 ts1]
  have 3: "map incident_chain (incidents (process_result 4000 ''ETH'' 1 ?r2 initial)) = [[]]"
    unfolding c by simp
  from 1 2 3 show ?thesis by blast
qed

text \<open>
  C2 as stated fails: after four detections of (ETH, mispricing) one second apart, with 3
  confirmations required, the store holds two incidents of that asset and type which are
  both open, the one created at 2 s and the one created at 3 s.
\<close>

theorem two_open_incidents:
  "filter (is_open 3000 ''ETH'' Mispricing) (incidents (run_detections 3 four_detections initial))
     = [\<lparr>incident_id = 0, incident_type = Mispricing, incident_severity = 3,
         incident_chain = ''base'', incident_asset = ''ETH'', incident_timestamp = 2000,
         acknowledged = False,
         incident_details = MispricingDetails 150 101 (Fin (490000 / 101)) ''base'' 49,
         confirmationCount = 3\<rparr>,
        \<lparr>incident_id = 1, incident_type = Mispricing, incident_severity = 3,
         incident_chain = ''base'', incident_asset = ''ETH'', incident_timestamp = 3000,
         acknowledged = False,
         incident_details = MispricingDetails 150 101 (Fin (490000 / 101)) ''base'' 49,
         confirmationCount = 3\<rparr>]"
  by (simp add: four_detections_def mon_defs is_open_def)

text \<open>
  What the code keeps of the cool-down: the callback that a detection registers removes
  the counter of its key once 30 seconds have passed, whatever the count.
\<close>

lemma fold_delete_keep:
  "m key = None \<Longrightarrow> fold (\<lambda>(due, k) m. m(k := None)) xs m key = None"
  by (induction xs arbitrary: m) (auto split: prod.splits)

lemma fold_delete_key:
  "(d, key) \<in> set xs \<Longrightarrow> fold (\<lambda>(due, k) m. m(k := None)) xs m key = None"
proof (induction xs arbitrary: m)
  case Nil
  then show ?case by simp
next
  case (Cons x xs)
  show ?case
  proof (cases "(d, key) \<in> set xs")
    case True
    with Cons.IH show ?thesis by simp
  next
    case False
    with Cons.prems have x: "x = (d, key)" by simp
    have "fold (\<lambda>(due, k) m. m(k := None)) xs (m(key := None)) key = None"
      by (rule fold_delete_keep) simp
    then show ?thesis unfolding x by (simp only: fold_simps comp_apply prod.case)
  qed
qed

lemma counter_removed_after_window:
  assumes "now + 30000 \<le> later"
  shows "incidentConfirmations
           (run_timers later (snd (shouldCreateIncident now a ty required st)))
           (confirmation_key a ty) = None"
proof -
  have "(now + 30000, confirmation_key a ty)
          \<in> set (filter (\<lambda>(due, key). due \<le> later)
                (timers (snd (shouldCreateIncident now a ty required st))))"
    using assms by (simp add: shouldCreateIncident_def Let_def)
  then show ?thesis
    by (simp add: run_timers_def fold_delete_key)
qed

text \<open>
  C3: every confirmation counter is removed 30 seconds after its own creation, never
  earlier and never later. The code does not keep the first half. Detections of one key
  at 0 s and 10 s register callbacks due at 30 s and 40 s. The one at 30 s removes the
  counter, so the key is absent at 35 s; a detection at 35 s creates a new counter with
  count 1; the callback of the detection at 10 s removes this new counter at 40 s, 5
  seconds after its creation. The callback registered at 35 s is then still pending.
\<close>

theorem stale_timer_clears_new_counter:
  "incidentConfirmations
     (run_timers 35000 (run_detections 3
        [(0, ''ETH'', raw_mispricing), (10000, ''ETH'', raw_mispricing)] initial))
     ''ETH-mispricing'' = None
   \<and> incidentConfirmations
       (run_detections 3
          [(0, ''ETH'', raw_mispricing), (10000, ''ETH'', raw_mispricing),
           (35000, ''ETH'', raw_mispricing)] initial)
       ''ETH-mispricing'' = Some 1
   \<and> incidentConfirmations
       (run_timers 40000 (run_detections 3
          [(0, ''ETH'', raw_mispricing), (10000, ''ETH'', raw_mispricing),
           (35000, ''ETH'', raw_mispricing)] initial))
       ''ETH-mispricing'' = None
   \<and> timers
       (run_timers 40000 (run_detections 3
          [(0, ''ETH'', raw_mispricing), (10000, ''ETH'', raw_mispricing),
           (35000, ''ETH'', raw_mispricing)] initial))
       = [(65000, ''ETH-mispricing'')]"
  by (simp add: mon_defs)

end
